theory Spec2Isabelle
  imports Complex_Main
begin

section \<open>Starlink dashboard: link budget, rain attenuation, sampling, handover\<close>

text \<open>
  The dashboard exists in several near-duplicate variants (basic, terminal, tactical,
  "pro", enhanced). JavaScript numbers are modelled as real numbers: \<open>Math.sin\<close> is
  \<open>sin\<close>, \<open>Math.log10\<close> is \<open>log 10\<close>, \<open>Math.pow\<close> on a non-negative base is
  \<open>powr\<close>, \<open>Math.PI\<close> is \<open>pi\<close>, \<open>Math.max\<close>/\<open>Math.min\<close> are \<open>max\<close>/\<open>min\<close>.
  Rounding is outside this model. \<open>NaN\<close> and the infinities are modelled where a
  value comes from the library or from an unclamped elevation: what \<open>getSatState\<close>
  reads and returns, the elevation tests of \<open>drawFrame\<close> and \<open>simulateHandover\<close> and
  the SNR stored for a satellite are on a number type of their own, and the enhanced
  variant's link budget is optional.
\<close>

subsection \<open>Configuration and weather (terminal and tactical variants)\<close>

text \<open>\<open>let config = { considerRain: true, showFootprints: true, maxFootprints: 5, ... }\<close>\<close>

record config =
  considerRain :: bool
  showFootprints :: bool
  maxFootprints :: nat

definition defaultConfig :: config where
  "defaultConfig = \<lparr>considerRain = True, showFootprints = True, maxFootprints = 5\<rparr>"

text \<open>\<open>weatherData = { cloudCover, precipitation, humidity, temperature }\<close>; the global
  is \<open>null\<close> until the first fetch, hence an option where it is read.\<close>

record weather =
  cloudCover :: real
  precipitation :: real
  humidity :: real
  temperature :: real

subsection \<open>Link budget\<close>

text \<open>The object returned by \<open>calculateLinkBudget\<close> in the terminal variant:
  \<open>{ SNR, rxPower, FSPL, rainAttenuation: appliedRainAtt }\<close>.\<close>

record linkBudget =
  SNR :: real
  rxPower :: real
  FSPL :: real
  rainAttenuation :: real

text \<open>The tactical variant returns the same fields and
  \<open>modulation, dataRate, margin: SNR - 5\<close>.\<close>

record linkBudgetTactical = linkBudget +
  modulation :: string
  dataRate :: int
  margin :: real

text \<open>Terminal variant, \<open>calculateLinkBudget(elevationDeg, rainAttenuation = 0)\<close>.
  The global \<open>config\<close> is passed in.\<close>

definition calculateLinkBudget :: "config \<Rightarrow> real \<Rightarrow> real \<Rightarrow> linkBudget" where
  "calculateLinkBudget cfg elevationDeg rainAtt =
     (let FREQ = 11500000000;
          EIRP = 35;
          GAIN = 33;
          distance = 550 / sin (max elevationDeg 1 * pi / 180);
          fspl = 20 * log 10 (distance * 1000) + 20 * log 10 FREQ + 92.45;
          atmosphericLoss = 0.5 / sin (max elevationDeg 5 * pi / 180);
          appliedRainAtt = (if considerRain cfg then rainAtt else 0);
          rxp = EIRP - fspl - atmosphericLoss - appliedRainAtt + GAIN;
          noiseFloor = - 134;
          snr = rxp - noiseFloor
      in \<lparr>SNR = snr, rxPower = rxp, FSPL = fspl, rainAttenuation = appliedRainAtt\<rparr>)"

text \<open>Tactical variant: the same computation followed by the adaptive-modulation
  ladder (\<open>let modulation = "QPSK"; let dataRate = 50; if (SNR > 25) ...\<close>).\<close>

definition calculateLinkBudget_tactical ::
    "config \<Rightarrow> real \<Rightarrow> real \<Rightarrow> linkBudgetTactical" where
  "calculateLinkBudget_tactical cfg elevationDeg rainAtt =
     (let FREQ = 11500000000;
          EIRP = 35;
          GAIN = 33;
          distance = 550 / sin (max elevationDeg 1 * pi / 180);
          fspl = 20 * log 10 (distance * 1000) + 20 * log 10 FREQ + 92.45;
          atmosphericLoss = 0.5 / sin (max elevationDeg 5 * pi / 180);
          appliedRainAtt = (if considerRain cfg then rainAtt else 0);
          rxp = EIRP - fspl - atmosphericLoss - appliedRainAtt + GAIN;
          noiseFloor = - 134;
          snr = rxp - noiseFloor;
          (modu, rate) =
            (if snr > 25 then (''256-APSK'', 400)
             else if snr > 20 then (''128-APSK'', 350)
             else if snr > 18 then (''64-APSK'', 300)
             else if snr > 15 then (''32-APSK'', 250)
             else if snr > 12 then (''16-APSK'', 200)
             else if snr > 8 then (''8PSK'', 150)
             else (''QPSK'', 50))
      in \<lparr>SNR = snr, rxPower = rxp, FSPL = fspl, rainAttenuation = appliedRainAtt,
          modulation = modu, dataRate = rate, margin = snr - 5\<rparr>)"

text \<open>"Pro" (corrected) variant: no configuration switch, the rain attenuation is
  always applied.\<close>

definition calculateLinkBudget_pro :: "real \<Rightarrow> real \<Rightarrow> linkBudget" where
  "calculateLinkBudget_pro elevationDeg rainAtt =
     (let FREQ = 11500000000;
          EIRP = 35;
          GAIN = 33;
          distance = 550 / sin (max elevationDeg 1 * pi / 180);
          fspl = 20 * log 10 (distance * 1000) + 20 * log 10 FREQ + 92.45;
          atmosphericLoss = 0.5 / sin (max elevationDeg 5 * pi / 180);
          rxp = EIRP - fspl - atmosphericLoss - rainAtt + GAIN;
          noiseFloor = - 134;
          snr = rxp - noiseFloor
      in \<lparr>SNR = snr, rxPower = rxp, FSPL = fspl, rainAttenuation = rainAtt\<rparr>)"

text \<open>
  Enhanced variant (\<open>app-enhanced.js\<close>): its RF constants and its own
  \<open>calculateLinkBudget(elevationDeg, frequency = FREQ_DOWNLINK)\<close>. It does not clamp
  the elevation: where \<open>Math.sin(elevationDeg * Math.PI / 180)\<close> is 0 the distance is
  \<open>Infinity\<close>, where it is negative \<open>Math.log10\<close> of the distance is \<open>NaN\<close>, and
  \<open>Math.log10\<close> of a frequency that is not positive is \<open>-Infinity\<close> or \<open>NaN\<close>. The
  function then returns an object holding \<open>Infinity\<close> or \<open>NaN\<close>, which is \<open>None\<close>
  here; \<open>Some\<close> is an object of finite numbers.
\<close>

definition SPEED_OF_LIGHT :: real where "SPEED_OF_LIGHT = 299792458"
definition FREQ_DOWNLINK :: real where "FREQ_DOWNLINK = 11500000000"
definition BANDWIDTH :: real where "BANDWIDTH = 250000000"
definition SATELLITE_EIRP :: real where "SATELLITE_EIRP = 35"
definition TERMINAL_GAIN :: real where "TERMINAL_GAIN = 33"
definition NOISE_TEMP :: real where "NOISE_TEMP = 290"
definition BOLTZMANN :: real where "BOLTZMANN = 138 / 10 ^ 25"

record linkBudgetEnhanced =
  distance_e :: real
  FSPL_e :: real
  atmosphericLoss_e :: real
  rainLoss_e :: real
  rxPower_e :: real
  noiseFloor_e :: real
  SNR_e :: real
  marginDb_e :: real

definition calculateLinkBudget_enhanced ::
    "real \<Rightarrow> real \<Rightarrow> linkBudgetEnhanced option" where
  "calculateLinkBudget_enhanced elevationDeg frequency =
     (if sin (elevationDeg * pi / 180) \<le> 0 \<or> frequency \<le> 0
         \<or> sin (max elevationDeg 5 * pi / 180) = 0
      then None
      else
        let distance = 550 / sin (elevationDeg * pi / 180);
            fspl = 20 * log 10 (distance * 1000) + 20 * log 10 frequency
                   + 20 * log 10 (4 * pi / SPEED_OF_LIGHT);
            atmosphericLoss = 0.5 / sin (max elevationDeg 5 * pi / 180);
            rainLoss = (if elevationDeg < 10 then 3 else if elevationDeg < 20 then 1.5 else 0.5);
            rxp = SATELLITE_EIRP - fspl - atmosphericLoss - rainLoss + TERMINAL_GAIN;
            noiseFloor = 10 * log 10 (BOLTZMANN * NOISE_TEMP * BANDWIDTH);
            snr = rxp - noiseFloor - 30
        in Some \<lparr>distance_e = distance, FSPL_e = fspl, atmosphericLoss_e = atmosphericLoss,
                 rainLoss_e = rainLoss, rxPower_e = rxp, noiseFloor_e = noiseFloor, SNR_e = snr,
                 marginDb_e = snr - 10\<rparr>)"

subsection \<open>Rain attenuation\<close>

text \<open>Terminal and tactical variants:
  \<open>if (precipitation === 0 || !config.considerRain) return 0;\<close> and then the
  power-law approximation, capped at 20 dB.\<close>

definition calculateRainAttenuation :: "config \<Rightarrow> real \<Rightarrow> real \<Rightarrow> real" where
  "calculateRainAttenuation cfg elevation precip =
     (if precip = 0 \<or> \<not> considerRain cfg then 0
      else
        let freq = 11.5;
            k = 0.0101 * freq powr 2.03;
            alpha = 1.065;
            slantPath = 550 / sin (max elevation 5 * pi / 180);
            attenuation = k * precip powr alpha * min (slantPath / 10) 5
        in min attenuation 20)"

text \<open>"Pro" variant: \<open>if (precipitation === 0) return 0;\<close> only.\<close>

definition calculateRainAttenuation_pro :: "real \<Rightarrow> real \<Rightarrow> real" where
  "calculateRainAttenuation_pro elevation precip =
     (if precip = 0 then 0
      else
        let freq = 11.5;
            k = 0.0101 * freq powr 2.03;
            alpha = 1.065;
            slantPath = 550 / sin (max elevation 5 * pi / 180);
            attenuation = k * precip powr alpha * min (slantPath / 10) 5
        in min attenuation 20)"

text \<open>The closed form of the signal-to-noise ratio as the specification words it, to be
  compared with the code's computation.\<close>

definition snr_closed_form :: "bool \<Rightarrow> real \<Rightarrow> real \<Rightarrow> real" where
  "snr_closed_form rainEnabled e r =
     (35 - (20 * log 10 (1000 * 550 / sin (max e 1 * pi / 180))
            + 20 * log 10 11500000000 + 92.45)
         - 0.5 / sin (max e 5 * pi / 180)
         - (if rainEnabled then r else 0) + 33) - (- 134)"


subsection \<open>The satellite.js library and JavaScript numbers\<close>

text \<open>
  \<open>getSatState\<close> wraps its whole body in \<open>try { ... } catch { return null; }\<close>, so a
  call into the library may throw: every library function returns
  \<open>js_exception + result\<close>. The library is not part of the repository and is a
  parameter of the model. A property read on a missing result (a \<open>TypeError\<close>) is
  counted as the throw of the call that produced it.
\<close>

datatype js_exception = Thrown string

definition thenE :: "js_exception + 'a \<Rightarrow> ('a \<Rightarrow> js_exception + 'b) \<Rightarrow> js_exception + 'b" where
  "thenE m f = (case m of Inl e \<Rightarrow> Inl e | Inr v \<Rightarrow> f v)"

text \<open>A JavaScript number: a finite one (read as a real), an infinity or \<open>NaN\<close>.\<close>

datatype jsnum = Fin real | PosInf | NegInf | NaN

fun isFinite :: "jsnum \<Rightarrow> bool" where
  "isFinite (Fin r) = True"
| "isFinite PosInf = False"
| "isFinite NegInf = False"
| "isFinite NaN = False"

text \<open>The value of a number known to be finite.\<close>

fun finiteValue :: "jsnum \<Rightarrow> real" where
  "finiteValue (Fin r) = r"
| "finiteValue PosInf = 0"
| "finiteValue NegInf = 0"
| "finiteValue NaN = 0"

text \<open>\<open>a >= b\<close> on JavaScript numbers: false whenever an operand is NaN.\<close>

fun js_ge :: "jsnum \<Rightarrow> jsnum \<Rightarrow> bool" where
  "js_ge NaN b = False"
| "js_ge a NaN = False"
| "js_ge PosInf b = True"
| "js_ge a NegInf = True"
| "js_ge NegInf b = False"
| "js_ge a PosInf = False"
| "js_ge (Fin a) (Fin b) = (a \<ge> b)"

text \<open>\<open>a < b\<close> on JavaScript numbers: false whenever an operand is NaN.\<close>

fun js_lt :: "jsnum \<Rightarrow> jsnum \<Rightarrow> bool" where
  "js_lt NaN b = False"
| "js_lt a NaN = False"
| "js_lt a NegInf = False"
| "js_lt NegInf b = True"
| "js_lt PosInf b = False"
| "js_lt a PosInf = True"
| "js_lt (Fin a) (Fin b) = (a < b)"

text \<open>\<open>a - b\<close>, \<open>a + b\<close>, \<open>a ** 2\<close> and \<open>Math.sqrt(a)\<close> on JavaScript numbers.\<close>

fun js_sub :: "jsnum \<Rightarrow> jsnum \<Rightarrow> jsnum" where
  "js_sub NaN b = NaN"
| "js_sub a NaN = NaN"
| "js_sub PosInf PosInf = NaN"
| "js_sub NegInf NegInf = NaN"
| "js_sub PosInf b = PosInf"
| "js_sub NegInf b = NegInf"
| "js_sub a PosInf = NegInf"
| "js_sub a NegInf = PosInf"
| "js_sub (Fin a) (Fin b) = Fin (a - b)"

fun js_add :: "jsnum \<Rightarrow> jsnum \<Rightarrow> jsnum" where
  "js_add NaN b = NaN"
| "js_add a NaN = NaN"
| "js_add PosInf NegInf = NaN"
| "js_add NegInf PosInf = NaN"
| "js_add PosInf b = PosInf"
| "js_add NegInf b = NegInf"
| "js_add a PosInf = PosInf"
| "js_add a NegInf = NegInf"
| "js_add (Fin a) (Fin b) = Fin (a + b)"

fun js_square :: "jsnum \<Rightarrow> jsnum" where
  "js_square (Fin a) = Fin (a ^ 2)"
| "js_square PosInf = PosInf"
| "js_square NegInf = PosInf"
| "js_square NaN = NaN"

fun js_sqrt :: "jsnum \<Rightarrow> jsnum" where
  "js_sqrt (Fin a) = (if a < 0 then NaN else Fin (sqrt a))"
| "js_sqrt PosInf = PosInf"
| "js_sqrt NegInf = NaN"
| "js_sqrt NaN = NaN"

text \<open>\<open>{x, y, z}\<close>, the propagation result \<open>{position, velocity}\<close> (a field is
  \<open>None\<close> when it is \<open>false\<close> or missing), geodetic coordinates and look angles.\<close>

datatype 'n vec = Vec 'n 'n 'n

record 'n pv =
  position :: "'n vec option"
  velocity :: "'n vec option"

record 'n geodetic =
  latitude :: 'n
  longitude :: 'n
  height :: 'n

record 'n lookAngles =
  azimuth :: 'n
  elevation :: 'n
  rangeSat :: 'n

record ('rec, 'time, 'n) satlib =
  gstime :: "'time \<Rightarrow> js_exception + 'n"
  propagate :: "'rec \<Rightarrow> 'time \<Rightarrow> js_exception + 'n pv option"
  eciToGeodetic :: "'n vec \<Rightarrow> 'n \<Rightarrow> js_exception + 'n geodetic"
  radiansToDegrees :: "'n \<Rightarrow> js_exception + 'n"
  degreesToRadians :: "'n \<Rightarrow> js_exception + 'n"
  eciToEcf :: "'n vec \<Rightarrow> 'n \<Rightarrow> js_exception + 'n vec"
  ecfToLookAngles :: "'n geodetic \<Rightarrow> 'n vec \<Rightarrow> js_exception + 'n lookAngles"

text \<open>\<open>let obs = { lat: -27.588, lon: -48.613, elevMin: 25 }\<close>\<close>

record observer =
  obs_lat :: real
  obs_lon :: real
  elevMin :: real

definition defaultObserver :: observer where
  "defaultObserver = \<lparr>obs_lat = - 27.588, obs_lon = - 48.613, elevMin = 25\<rparr>"

subsection \<open>Satellite state\<close>

text \<open>
  The object \<open>{ lat, lon, alt, az, el }\<close>. In the basic variant \<open>lat\<close>, \<open>lon\<close> and
  \<open>alt\<close> have passed \<open>isFinite\<close> and are reals, while \<open>az\<close> and \<open>el\<close> are not tested.
  The terminal variant tests nothing, so all its fields are JavaScript numbers, and it
  adds \<open>range\<close> and \<open>speed\<close>.
\<close>

record ('c, 'n) satState =
  lat :: 'c
  lon :: 'c
  alt :: 'c
  az :: 'n
  el :: 'n

record satStateT = "(jsnum, jsnum) satState" +
  range_km :: jsnum
  speed :: jsnum

text \<open>Basic variant, the body of the \<open>try\<close> block of \<open>getSatState(rec, time)\<close>:
  \<open>Inr None\<close> is \<open>return null\<close>, \<open>Inl\<close> a throw.\<close>

definition getSatState_try ::
    "('rec, 'time, jsnum) satlib \<Rightarrow> observer \<Rightarrow> 'rec \<Rightarrow> 'time
      \<Rightarrow> js_exception + (real, jsnum) satState option" where
  "getSatState_try sl ob rec time =
     thenE (gstime sl time) (\<lambda>gmst.
     thenE (propagate sl rec time) (\<lambda>pvo.
       case pvo of
         None \<Rightarrow> Inr None
       | Some p \<Rightarrow>
          (case position p of
             None \<Rightarrow> Inr None
           | Some eci \<Rightarrow>
               thenE (eciToGeodetic sl eci gmst) (\<lambda>gd.
               thenE (radiansToDegrees sl (latitude gd)) (\<lambda>la.
               thenE (radiansToDegrees sl (longitude gd)) (\<lambda>lo.
                 let al = height gd in
                 if \<not> isFinite la \<or> \<not> isFinite lo \<or> \<not> isFinite al then Inr None
                 else
                   thenE (degreesToRadians sl (Fin (obs_lat ob))) (\<lambda>olat.
                   thenE (degreesToRadians sl (Fin (obs_lon ob))) (\<lambda>olon.
                     let obsGd = \<lparr>latitude = olat, longitude = olon, height = Fin 0\<rparr> in
                     thenE (eciToEcf sl eci gmst) (\<lambda>satEcf.
                     thenE (ecfToLookAngles sl obsGd satEcf) (\<lambda>look.
                     thenE (radiansToDegrees sl (azimuth look)) (\<lambda>a.
                     thenE (radiansToDegrees sl (elevation look)) (\<lambda>e.
                       Inr (Some \<lparr>lat = finiteValue la, lon = finiteValue lo,
                                  alt = finiteValue al, az = a, el = e\<rparr>)))))))))))))"

text \<open>\<open>getSatState\<close> itself: \<open>catch (e) { return null; }\<close>.\<close>

definition getSatState ::
    "('rec, 'time, jsnum) satlib \<Rightarrow> observer \<Rightarrow> 'rec \<Rightarrow> 'time
      \<Rightarrow> (real, jsnum) satState option" where
  "getSatState sl ob rec time =
     (case getSatState_try sl ob rec time of Inl ex \<Rightarrow> None | Inr r \<Rightarrow> r)"




text \<open>
  Terminal variant (the "pro" and tactical variants have the same body). It starts
  with \<open>if (!rec) return null;\<close>, so it takes the entry of \<open>satRecs\<close> as it is (\<open>None\<close>
  for \<open>null\<close> or \<open>undefined\<close>). It does not test finiteness, so what the library
  returns, \<open>NaN\<close> included, goes into the state.
  \<open>const vel = pv.velocity || {x: 0, y: 0, z: 0}\<close> and
  \<open>const speed = Math.sqrt(vel.x**2 + vel.y**2 + vel.z**2)\<close>.
\<close>

definition getSatState_terminal_try ::
    "('rec, 'time, jsnum) satlib \<Rightarrow> observer \<Rightarrow> 'rec option \<Rightarrow> 'time
      \<Rightarrow> js_exception + satStateT option" where
  "getSatState_terminal_try sl ob reco time =
     (case reco of
        None \<Rightarrow> Inr None
      | Some rec \<Rightarrow>
         thenE (gstime sl time) (\<lambda>gmst.
         thenE (propagate sl rec time) (\<lambda>pvo.
           case pvo of
             None \<Rightarrow> Inr None
           | Some p \<Rightarrow>
              (case position p of
                 None \<Rightarrow> Inr None
               | Some eci \<Rightarrow>
                   let vel = (case velocity p of
                                None \<Rightarrow> Vec (Fin 0) (Fin 0) (Fin 0) | Some v \<Rightarrow> v) in
                   thenE (eciToGeodetic sl eci gmst) (\<lambda>gd.
                   thenE (radiansToDegrees sl (latitude gd)) (\<lambda>la.
                   thenE (radiansToDegrees sl (longitude gd)) (\<lambda>lo.
                     let al = height gd;
                         sp = (case vel of Vec vx vy vz \<Rightarrow>
                                 js_sqrt (js_add (js_add (js_square vx) (js_square vy))
                                            (js_square vz))) in
                     thenE (degreesToRadians sl (Fin (obs_lat ob))) (\<lambda>olat.
                     thenE (degreesToRadians sl (Fin (obs_lon ob))) (\<lambda>olon.
                       let obsGd = \<lparr>latitude = olat, longitude = olon, height = Fin 0\<rparr> in
                       thenE (eciToEcf sl eci gmst) (\<lambda>satEcf.
                       thenE (ecfToLookAngles sl obsGd satEcf) (\<lambda>look.
                       thenE (radiansToDegrees sl (azimuth look)) (\<lambda>a.
                       thenE (radiansToDegrees sl (elevation look)) (\<lambda>e.
                         Inr (Some \<lparr>lat = la, lon = lo, alt = al, az = a, el = e,
                                    range_km = rangeSat look, speed = sp\<rparr>))))))))))))))"

definition getSatState_terminal ::
    "('rec, 'time, jsnum) satlib \<Rightarrow> observer \<Rightarrow> 'rec option \<Rightarrow> 'time \<Rightarrow> satStateT option" where
  "getSatState_terminal sl ob reco time =
     (case getSatState_terminal_try sl ob reco time of Inl ex \<Rightarrow> None | Inr r \<Rightarrow> r)"

subsection \<open>The sampling loop of \<open>drawFrame\<close>\<close>

text \<open>
  \<open>for (let i = 0; i < n; i += step) { body }\<close> with the loop state \<open>acc\<close>. Nothing in
  the loop itself makes \<open>step\<close> positive, so it is a partial function: \<open>None\<close> is a
  loop that never ends. A \<open>continue\<close> is a body that returns its state.
\<close>

partial_function (option) forStep ::
    "nat \<Rightarrow> nat \<Rightarrow> (nat \<Rightarrow> 'a \<Rightarrow> 'a) \<Rightarrow> nat \<Rightarrow> 'a \<Rightarrow> 'a option" where
  "forStep n step body i acc =
     (if i < n then forStep n step body (i + step) (body i acc) else Some acc)"

text \<open>\<open>const step = Math.ceil(tleList.length / MAX_SATS)\<close> with \<open>MAX_SATS = 1000\<close>
  (\<open>MAX_DRAW\<close> in the terminal and tactical variants).\<close>

definition MAX_SATS :: nat where "MAX_SATS = 1000"

definition sampleStep :: "nat \<Rightarrow> nat" where
  "sampleStep n = nat \<lceil>real n / real MAX_SATS\<rceil>"

text \<open>The indices the loop visits, in order.\<close>

definition visitedIndices :: "nat \<Rightarrow> nat list option" where
  "visitedIndices n = forStep n (sampleStep n) (\<lambda>i visited. visited @ [i]) 0 []"

text \<open>Reading \<open>satRecs[i]\<close>: \<open>null\<close> and, out of range, \<open>undefined\<close> are both falsy.\<close>

definition satRecAt :: "'rec option list \<Rightarrow> nat \<Rightarrow> 'rec option" where
  "satRecAt recs i = (if i < length recs then recs ! i else None)"

subsection \<open>Drawing a frame\<close>

text \<open>What a frame puts on the map: circle markers, footprint circles, and the
  counters shown in the information panel. Coordinates are reals in the basic variant,
  where they have passed \<open>isFinite\<close>, and JavaScript numbers in the terminal variant.\<close>

record 'c marker =
  m_lat :: 'c
  m_lon :: 'c
  m_radius :: real
  m_color :: string
  m_fillOpacity :: real

record 'c circle =
  c_lat :: 'c
  c_lon :: 'c
  c_radius :: 'c
  c_color :: string

record ('m, 'c) frame =
  markers :: "'m list"
  footprints :: "'c circle list"
  visible :: nat
  drawn :: nat
  errors :: nat

definition emptyFrame :: "('m, 'c) frame" where
  "emptyFrame = \<lparr>markers = [], footprints = [], visible = 0, drawn = 0, errors = 0\<rparr>"

text \<open>\<open>footprintRadiusKm(altKm, elevMinDeg)\<close> of the basic variant.\<close>

definition footprintRadiusKm :: "real \<Rightarrow> real \<Rightarrow> real" where
  "footprintRadiusKm altKm elevMinDeg =
     (let Re = 6371;
          h = altKm;
          e = elevMinDeg * pi / 180;
          psi = arccos ((Re / (Re + h)) * cos e) - e
      in Re * psi)"

text \<open>
  The same function, named \<open>calculateFootprintRadius\<close>, in the terminal variant, where
  the altitude is not known to be finite: with an infinite altitude \<open>Re / (Re + h)\<close> is
  zero and the arc cosine is that of 0; \<open>NaN\<close> stays \<open>NaN\<close>; a division by zero or an
  arc cosine outside \<open>[-1, 1]\<close> gives \<open>NaN\<close>.
\<close>

definition calculateFootprintRadius :: "jsnum \<Rightarrow> real \<Rightarrow> jsnum" where
  "calculateFootprintRadius altKm elevMinDeg =
     (let Re = 6371;
          e = elevMinDeg * pi / 180
      in case altKm of
           Fin h \<Rightarrow>
             let c = (Re / (Re + h)) * cos e in
             if Re + h = 0 \<or> c < - 1 \<or> 1 < c then NaN else Fin (Re * (arccos c - e))
         | PosInf \<Rightarrow> Fin (Re * (arccos 0 - e))
         | NegInf \<Rightarrow> Fin (Re * (arccos 0 - e))
         | NaN \<Rightarrow> NaN)"

text \<open>\<open>a * c\<close> for a finite number \<open>c\<close>.\<close>

fun js_times :: "jsnum \<Rightarrow> real \<Rightarrow> jsnum" where
  "js_times (Fin a) c = Fin (a * c)"
| "js_times PosInf c = (if 0 < c then PosInf else if c < 0 then NegInf else NaN)"
| "js_times NegInf c = (if 0 < c then NegInf else if c < 0 then PosInf else NaN)"
| "js_times NaN c = NaN"

text \<open>The globals of the basic variant that a frame reads. The clock (\<open>new Date()\<close>)
  is read once per frame in the model.\<close>

record ('rec, 'time, 'tle) globals =
  tleList :: "'tle list"
  satRecs :: "'rec option list"
  obs :: observer
  satlibrary :: "('rec, 'time, jsnum) satlib"
  now :: 'time

text \<open>Basic variant, the body of the loop of \<open>drawFrame\<close> for index \<open>i\<close>.\<close>

definition drawSatellite ::
    "('rec, 'time, 'tle) globals \<Rightarrow> nat \<Rightarrow> (real marker, real) frame
      \<Rightarrow> (real marker, real) frame" where
  "drawSatellite g i fr =
     (case satRecAt (satRecs g) i of
        None \<Rightarrow> fr\<lparr>errors := errors fr + 1\<rparr>
      | Some rec \<Rightarrow>
         (case getSatState (satlibrary g) (obs g) rec (now g) of
            None \<Rightarrow> fr\<lparr>errors := errors fr + 1\<rparr>
          | Some st \<Rightarrow>
              let isVisible = js_ge (el st) (Fin (elevMin (obs g)));
                  color = (if isVisible then ''#00ff44'' else ''#4488ff'');
                  radius = (if isVisible then 4 else 2);
                  mk = \<lparr>m_lat = lat st, m_lon = lon st, m_radius = radius, m_color = color,
                        m_fillOpacity = (if isVisible then 0.9 else 0.6)\<rparr>;
                  fr1 = fr\<lparr>markers := markers fr @ [mk], drawn := drawn fr + 1\<rparr>
              in if isVisible then
                   let fr2 = fr1\<lparr>visible := visible fr1 + 1\<rparr> in
                   if visible fr2 \<le> 10 then
                     let rKm = max 200 (footprintRadiusKm (alt st) (elevMin (obs g))) in
                     fr2\<lparr>footprints := footprints fr2 @
                           [\<lparr>c_lat = lat st, c_lon = lon st, c_radius = rKm * 1000,
                              c_color = ''#00ff44''\<rparr>]\<rparr>
                   else fr2
                 else fr1))"

text \<open>Basic variant, \<open>drawFrame()\<close>: \<open>if (isDrawing) return;\<close> leaves the layers as
  they are (\<open>shown\<close>); otherwise the layers are cleared and redrawn.\<close>

definition drawFrame ::
    "('rec, 'time, 'tle) globals \<Rightarrow> bool \<Rightarrow> (real marker, real) frame
      \<Rightarrow> (real marker, real) frame option" where
  "drawFrame g isDrawing shown =
     (if isDrawing then Some shown
      else
        let n = length (tleList g);
            step = sampleStep n
        in forStep n step (drawSatellite g) 0 emptyFrame)"

subsection \<open>Handover state and the terminal variant's frame\<close>

text \<open>An entry of \<open>visible\<close>: \<open>{ satellite: tleList[i], state: st, snr: linkBudget.SNR,
  index: i }\<close>.\<close>

record 'tle tracked =
  satellite :: 'tle
  state :: satStateT
  snr :: jsnum
  index :: nat

text \<open>\<open>let currentServingSat = null; let handoverCandidates = [];\<close>\<close>

record 'tle handover =
  currentServingSat :: "'tle tracked option"
  handoverCandidates :: "'tle tracked list"

definition initialHandover :: "'tle handover" where
  "initialHandover = \<lparr>currentServingSat = None, handoverCandidates = []\<rparr>"

text \<open>The globals of the "pro" variant are those of the basic one and
  \<open>weatherData\<close>; the terminal variant adds \<open>config\<close>.\<close>

record ('rec, 'time, 'tle) pro = "('rec, 'time, 'tle) globals" +
  weatherData :: "weather option"

record ('rec, 'time, 'tle) terminal = "('rec, 'time, 'tle) pro" +
  config :: config

text \<open>\<open>const rainAtt = config.considerRain && weatherData ?
  calculateRainAttenuation(st.el, weatherData.precipitation) : 0;\<close>\<close>

definition rainAttFor :: "('rec, 'time, 'tle) terminal \<Rightarrow> real \<Rightarrow> real" where
  "rainAttFor g e =
     (case weatherData g of
        Some wd \<Rightarrow>
          if considerRain (config g) then calculateRainAttenuation (config g) e (precipitation wd)
          else 0
      | None \<Rightarrow> 0)"

text \<open>The link-budget SNR of the terminal variant at a finite elevation,
  \<open>calculateLinkBudget(st.el, rainAtt).SNR\<close>, and of the "pro" variant,
  \<open>calculateLinkBudget(st.el, calculateRainAttenuation(st.el,
  weatherData?.precipitation || 0)).SNR\<close>.\<close>

definition linkBudgetSNR :: "('rec, 'time, 'tle) terminal \<Rightarrow> real \<Rightarrow> real" where
  "linkBudgetSNR g e = SNR (calculateLinkBudget (config g) e (rainAttFor g e))"

definition linkBudgetSNR_pro :: "('rec, 'time, 'tle, 'm) pro_scheme \<Rightarrow> real \<Rightarrow> real" where
  "linkBudgetSNR_pro g e =
     (let precip = (case weatherData g of None \<Rightarrow> 0 | Some wd \<Rightarrow> precipitation wd)
      in SNR (calculateLinkBudget_pro e (calculateRainAttenuation_pro e precip)))"

text \<open>
  The same value when the elevation is any JavaScript number. \<open>Math.max(NaN, c)\<close> is
  \<open>NaN\<close> and \<open>Math.max(Infinity, c)\<close> is \<open>Infinity\<close>; the sine of either is \<open>NaN\<close>, and
  \<open>NaN\<close> goes through the divisions, logarithms and sums into \<open>SNR\<close>, whatever the rain
  attenuation. \<open>Math.max(-Infinity, 1)\<close> is 1 and \<open>Math.max(-Infinity, 5)\<close> is 5, as for
  an elevation of 1 degree.
\<close>

definition snrAtElevation :: "(real \<Rightarrow> real) \<Rightarrow> jsnum \<Rightarrow> jsnum" where
  "snrAtElevation snrOf elv =
     (case elv of
        Fin e \<Rightarrow> Fin (snrOf e)
      | NegInf \<Rightarrow> Fin (snrOf 1)
      | PosInf \<Rightarrow> NaN
      | NaN \<Rightarrow> NaN)"

text \<open>The marker of the terminal variant also carries the line opacity and the
  signal-to-noise ratio printed in its popup.\<close>

record markerT = "jsnum marker" +
  m_opacity :: real
  m_popupSNR :: jsnum

text \<open>Terminal variant, the body of the loop of \<open>drawFrame\<close> for index \<open>i\<close>. What
  Leaflet does with the coordinates it is given is outside the model.\<close>

definition drawSatellite_terminal ::
    "('rec, 'time, 'tle) terminal \<Rightarrow> 'tle handover \<Rightarrow> nat \<Rightarrow> (markerT, jsnum) frame
      \<Rightarrow> (markerT, jsnum) frame" where
  "drawSatellite_terminal g h i fr =
     (case satRecAt (satRecs g) i of
        None \<Rightarrow> fr
      | Some rec \<Rightarrow>
         (case getSatState_terminal (satlibrary g) (obs g) (Some rec) (now g) of
            None \<Rightarrow> fr
          | Some st \<Rightarrow>
              let isVisible = js_ge (el st) (Fin (elevMin (obs g)));
                  isServing = (case currentServingSat h of
                                 None \<Rightarrow> False | Some s \<Rightarrow> index s = i);
                  isCandidate = list_ex (\<lambda>c. index c = i) (handoverCandidates h);
                  (color, radius, opacity, vis) =
                    (if isServing then (''#ffffff'', 6, 1, visible fr)
                     else if isCandidate then (''#ffff00'', 4, 0.8, visible fr)
                     else if isVisible then (''#00ff00'', 3, 0.7, visible fr + 1)
                     else (''#004400'', 1, 0.2, visible fr));
                  mk = \<lparr>m_lat = lat st, m_lon = lon st, m_radius = radius, m_color = color,
                        m_fillOpacity = opacity, m_opacity = opacity + 0.2,
                        m_popupSNR = snrAtElevation (linkBudgetSNR g) (el st)\<rparr>;
                  fr1 = fr\<lparr>markers := markers fr @ [mk], visible := vis, drawn := drawn fr + 1\<rparr>
              in if showFootprints (config g) \<and> isVisible \<and> vis \<le> maxFootprints (config g)
                 then fr1\<lparr>footprints := footprints fr1 @
                        [\<lparr>c_lat = lat st, c_lon = lon st,
                           c_radius = js_times
                             (calculateFootprintRadius (alt st) (elevMin (obs g))) 1000,
                           c_color = ''#00ff00''\<rparr>]\<rparr>
                 else fr1))"

definition drawFrame_terminal ::
    "('rec, 'time, 'tle) terminal \<Rightarrow> 'tle handover \<Rightarrow> bool \<Rightarrow> (markerT, jsnum) frame
      \<Rightarrow> (markerT, jsnum) frame option" where
  "drawFrame_terminal g h isDrawing shown =
     (if isDrawing then Some shown
      else
        let n = length (tleList g);
            step = sampleStep n
        in forStep n step (drawSatellite_terminal g h) 0 emptyFrame)"

subsection \<open>Handover simulation\<close>

text \<open>
  The logging and notification calls of \<open>simulateHandover\<close> (\<open>updateTerminalLog\<close>,
  \<open>showHandoverNotification\<close>, \<open>updateHandoverDisplay\<close>) change the page only and are
  left out.
\<close>

text \<open>Terminal variant, the body of the acquisition loop for index \<open>i\<close>:
  \<open>if (!st || st.el < obs.elevMin) continue;\<close> lets a \<open>NaN\<close> elevation through.\<close>

definition trackVisible ::
    "('rec, 'time, 'tle) terminal \<Rightarrow> nat \<Rightarrow> 'tle tracked list \<Rightarrow> 'tle tracked list" where
  "trackVisible g i vis =
     (case satRecAt (satRecs g) i of
        None \<Rightarrow> vis
      | Some rec \<Rightarrow>
         (case getSatState_terminal (satlibrary g) (obs g) (Some rec) (now g) of
            None \<Rightarrow> vis
          | Some st \<Rightarrow>
              if js_lt (el st) (Fin (elevMin (obs g))) then vis
              else
                vis @ [\<lparr>satellite = tleList g ! i, state = st,
                         snr = snrAtElevation (linkBudgetSNR g) (el st), index = i\<rparr>]))"

text \<open>\<open>for (let i = 0; i < tleList.length; i++)\<close> from \<open>const visible = []\<close>.\<close>

definition visibleSatellites :: "('rec, 'time, 'tle) terminal \<Rightarrow> 'tle tracked list" where
  "visibleSatellites g = fold (trackVisible g) [0..<length (tleList g)] []"

text \<open>
  \<open>visible.sort((a, b) => b.snr - a.snr)\<close>. \<open>Array.prototype.sort\<close> is stable, and a
  comparator result of \<open>NaN\<close> counts as 0. With finite \<open>snr\<close> the comparator is a
  consistent order and the result is the stable sort by descending \<open>snr\<close>. With a \<open>NaN\<close>
  among the values it is not, and the language leaves the order to the implementation;
  the result is a rearrangement of the list in every case. The model is the stable
  insertion sort: an entry moves behind \<open>y\<close> only when the comparator puts \<open>y\<close> first.
\<close>

fun insertBySNR :: "'tle tracked \<Rightarrow> 'tle tracked list \<Rightarrow> 'tle tracked list" where
  "insertBySNR x [] = [x]"
| "insertBySNR x (y # ys) =
     (if js_lt (Fin 0) (js_sub (snr y) (snr x)) then y # insertBySNR x ys else x # y # ys)"

definition sortBySNR :: "'tle tracked list \<Rightarrow> 'tle tracked list" where
  "sortBySNR xs = foldr insertBySNR xs []"

definition simulateHandover ::
    "('rec, 'time, 'tle) terminal \<Rightarrow> 'tle handover \<Rightarrow> 'tle handover" where
  "simulateHandover g h =
     (case currentServingSat h of
        None \<Rightarrow>
          let vis = visibleSatellites g in
          if length vis > 0 then
            let ranked = sortBySNR vis in
            h\<lparr>currentServingSat := Some (hd ranked),
              handoverCandidates := take 3 (drop 1 ranked)\<rparr>
          else h
      | Some cur \<Rightarrow>
          let currentState =
                getSatState_terminal (satlibrary g) (obs g) (satRecAt (satRecs g) (index cur)) (now g)
          in if (case currentState of
                   None \<Rightarrow> True
                 | Some st \<Rightarrow> js_lt (el st) (Fin (elevMin (obs g) - 5)))
             then
               (case handoverCandidates h of
                  newServing # others \<Rightarrow>
                    h\<lparr>currentServingSat := Some newServing, handoverCandidates := others\<rparr>
                | [] \<Rightarrow> h\<lparr>currentServingSat := None\<rparr>)
             else h)"

text \<open>"Pro" variant: the same function with
  \<open>calculateLinkBudget(st.el, calculateRainAttenuation(st.el, weatherData?.precipitation || 0))\<close>.
  It reads no \<open>config\<close>, so it is defined on every record that extends its globals.\<close>

definition trackVisible_pro ::
    "('rec, 'time, 'tle, 'm) pro_scheme \<Rightarrow> nat \<Rightarrow> 'tle tracked list \<Rightarrow> 'tle tracked list" where
  "trackVisible_pro g i vis =
     (case satRecAt (satRecs g) i of
        None \<Rightarrow> vis
      | Some rec \<Rightarrow>
         (case getSatState_terminal (satlibrary g) (obs g) (Some rec) (now g) of
            None \<Rightarrow> vis
          | Some st \<Rightarrow>
              if js_lt (el st) (Fin (elevMin (obs g))) then vis
              else
                vis @ [\<lparr>satellite = tleList g ! i, state = st,
                         snr = snrAtElevation (linkBudgetSNR_pro g) (el st), index = i\<rparr>]))"

definition visibleSatellites_pro ::
    "('rec, 'time, 'tle, 'm) pro_scheme \<Rightarrow> 'tle tracked list" where
  "visibleSatellites_pro g = fold (trackVisible_pro g) [0..<length (tleList g)] []"

definition simulateHandover_pro ::
    "('rec, 'time, 'tle, 'm) pro_scheme \<Rightarrow> 'tle handover \<Rightarrow> 'tle handover" where
  "simulateHandover_pro g h =
     (case currentServingSat h of
        None \<Rightarrow>
          let vis = visibleSatellites_pro g in
          if length vis > 0 then
            let ranked = sortBySNR vis in
            h\<lparr>currentServingSat := Some (hd ranked),
              handoverCandidates := take 3 (drop 1 ranked)\<rparr>
          else h
      | Some cur \<Rightarrow>
          let currentState =
                getSatState_terminal (satlibrary g) (obs g) (satRecAt (satRecs g) (index cur)) (now g)
          in if (case currentState of
                   None \<Rightarrow> True
                 | Some st \<Rightarrow> js_lt (el st) (Fin (elevMin (obs g) - 5)))
             then
               (case handoverCandidates h of
                  newServing # others \<Rightarrow>
                    h\<lparr>currentServingSat := Some newServing, handoverCandidates := others\<rparr>
                | [] \<Rightarrow> h\<lparr>currentServingSat := None\<rparr>)
             else h)"

text \<open>The timer calls \<open>simulateHandover\<close> once per tick; between ticks the clock, the
  observer, the weather and the configuration may change. A run is the list of the
  globals at each tick.\<close>

definition runHandover ::
    "('rec, 'time, 'tle) terminal list \<Rightarrow> 'tle handover \<Rightarrow> 'tle handover" where
  "runHandover ticks h = fold simulateHandover ticks h"

definition runHandover_pro ::
    "('rec, 'time, 'tle, 'm) pro_scheme list \<Rightarrow> 'tle handover \<Rightarrow> 'tle handover" where
  "runHandover_pro ticks h = fold simulateHandover_pro ticks h"

subsection \<open>The selection that the specification describes\<close>

text \<open>The state of satellite \<open>i\<close> now, as \<open>getSatState(satRecs[i])\<close> computes it.\<close>

definition stateNow ::
    "('rec, 'time, 'tle, 'm) globals_scheme \<Rightarrow> nat \<Rightarrow> satStateT option" where
  "stateNow g i = getSatState_terminal (satlibrary g) (obs g) (satRecAt (satRecs g) i) (now g)"





text \<open>The two facts about the handover state: at most three candidates, and the
  serving satellite is not among them.\<close>

definition candidatesBounded :: "'tle handover \<Rightarrow> bool" where
  "candidatesBounded h = (length (handoverCandidates h) \<le> 3)"

definition servingNotCandidate :: "'tle handover \<Rightarrow> bool" where
  "servingNotCandidate h =
     (case currentServingSat h of
        None \<Rightarrow> True
      | Some s \<Rightarrow> list_all (\<lambda>c. index c \<noteq> index s) (handoverCandidates h))"

text \<open>The serving satellite's state is computable and its elevation is at least
  \<open>obs.elevMin - 5\<close>.\<close>

definition servingStillUsable ::
    "('rec, 'time, 'tle, 'm) globals_scheme \<Rightarrow> 'tle tracked \<Rightarrow> bool" where
  "servingStillUsable g cur =
     (case getSatState_terminal (satlibrary g) (obs g) (satRecAt (satRecs g) (index cur)) (now g) of
        None \<Rightarrow> False
      | Some st \<Rightarrow> js_ge (el st) (Fin (elevMin (obs g) - 5)))"

text \<open>The test of the \<open>else\<close> branch of \<open>simulateHandover\<close>:
  \<open>!currentState || currentState.el < obs.elevMin - 5\<close>.\<close>

definition servingLost ::
    "('rec, 'time, 'tle, 'm) globals_scheme \<Rightarrow> 'tle tracked \<Rightarrow> bool" where
  "servingLost g cur =
     (case getSatState_terminal (satlibrary g) (obs g) (satRecAt (satRecs g) (index cur)) (now g) of
        None \<Rightarrow> True
      | Some st \<Rightarrow> js_lt (el st) (Fin (elevMin (obs g) - 5)))"

text \<open>What the terminal and the "pro" acquisition have in common, given the link
  budget \<open>snrOf\<close> of the variant.\<close>

definition trackWith ::
    "(real \<Rightarrow> real) \<Rightarrow> ('rec, 'time, 'tle, 'm) globals_scheme \<Rightarrow> nat \<Rightarrow> 'tle tracked list" where
  "trackWith snrOf g i =
     (case stateNow g i of
        None \<Rightarrow> []
      | Some st \<Rightarrow>
          if js_lt (el st) (Fin (elevMin (obs g))) then []
          else [\<lparr>satellite = tleList g ! i, state = st,
                  snr = snrAtElevation snrOf (el st), index = i\<rparr>])"

text \<open>What the terminal and the "pro" \<open>simulateHandover\<close> have in common, given the
  list \<open>visible\<close> each of them builds.\<close>

definition handoverWith ::
    "'tle tracked list \<Rightarrow> ('rec, 'time, 'tle, 'm) globals_scheme \<Rightarrow> 'tle handover
      \<Rightarrow> 'tle handover" where
  "handoverWith vis g h =
     (case currentServingSat h of
        None \<Rightarrow>
          if length vis > 0 then
            let ranked = sortBySNR vis in
            h\<lparr>currentServingSat := Some (hd ranked),
              handoverCandidates := take 3 (drop 1 ranked)\<rparr>
          else h
      | Some cur \<Rightarrow>
          if servingLost g cur then
            (case handoverCandidates h of
               newServing # others \<Rightarrow>
                 h\<lparr>currentServingSat := Some newServing, handoverCandidates := others\<rparr>
             | [] \<Rightarrow> h\<lparr>currentServingSat := None\<rparr>)
          else h)"

text \<open>The invariant behind the two facts: the indices of the serving satellite and of
  the candidates are pairwise distinct.\<close>

definition handoverInvariant :: "'tle handover \<Rightarrow> bool" where
  "handoverInvariant h =
     (length (handoverCandidates h) \<le> 3
      \<and> distinct (map index ((case currentServingSat h of None \<Rightarrow> [] | Some s \<Rightarrow> [s])
                               @ handoverCandidates h)))"

subsection \<open>What decides a marker's colour\<close>

text \<open>The indices \<open>0, step, 2 * step, ...\<close> below \<open>n\<close>, written as a list.\<close>

definition sampledIndices :: "nat \<Rightarrow> nat list" where
  "sampledIndices n =
     map (\<lambda>k. k * sampleStep n) [0..<(n + sampleStep n - 1) div sampleStep n]"

text \<open>
  The colour of the marker of satellite \<open>i\<close>, if one is drawn, read off the
  \<open>if\<close>-chain of \<open>drawFrame\<close>: in the terminal variant white for the serving satellite,
  yellow for a candidate, otherwise by elevation against \<open>obs.elevMin\<close>; in the basic
  variant by elevation alone. Neither reads the weather, the configuration or a link
  budget.
\<close>

definition markerColor_terminal ::
    "('rec, 'time, 'tle, 'm) globals_scheme \<Rightarrow> 'tle handover \<Rightarrow> nat \<Rightarrow> string list" where
  "markerColor_terminal g h i =
     (case satRecAt (satRecs g) i of
        None \<Rightarrow> []
      | Some rec \<Rightarrow>
         (case getSatState_terminal (satlibrary g) (obs g) (Some rec) (now g) of
            None \<Rightarrow> []
          | Some st \<Rightarrow>
              [if (case currentServingSat h of None \<Rightarrow> False | Some s \<Rightarrow> index s = i)
                 then ''#ffffff''
               else if list_ex (\<lambda>c. index c = i) (handoverCandidates h) then ''#ffff00''
               else if js_ge (el st) (Fin (elevMin (obs g))) then ''#00ff00''
               else ''#004400'']))"

definition markerColor_basic ::
    "('rec, 'time, 'tle) globals \<Rightarrow> nat \<Rightarrow> string list" where
  "markerColor_basic g i =
     (case satRecAt (satRecs g) i of
        None \<Rightarrow> []
      | Some rec \<Rightarrow>
         (case getSatState (satlibrary g) (obs g) rec (now g) of
            None \<Rightarrow> []
          | Some st \<Rightarrow>
              [if js_ge (el st) (Fin (elevMin (obs g))) then ''#00ff44'' else ''#4488ff'']))"

subsection \<open>Example data\<close>



text \<open>
  A stand-in for the library for the terminal variant: satellite record \<open>r\<close> at time
  \<open>t\<close> is seen at \<open>elevationDeg r t\<close> degrees.
\<close>

definition tableLibrary :: "(real \<Rightarrow> real \<Rightarrow> real) \<Rightarrow> (nat, nat, jsnum) satlib" where
  "tableLibrary elevationDeg =
     \<lparr>gstime = (\<lambda>t. Inr (Fin (real t))),
      propagate = (\<lambda>r t. Inr (Some \<lparr>position = Some (Vec (Fin (real r)) (Fin (real t)) (Fin 0)),
                                      velocity = None\<rparr>)),
      eciToGeodetic = (\<lambda>v gm. Inr \<lparr>latitude = Fin 0, longitude = Fin 0, height = Fin 550\<rparr>),
      radiansToDegrees = (\<lambda>a. Inr (case a of Fin r \<Rightarrow> Fin (r * 180 / pi) | other \<Rightarrow> other)),
      degreesToRadians = (\<lambda>a. Inr (case a of Fin r \<Rightarrow> Fin (r * pi / 180) | other \<Rightarrow> other)),
      eciToEcf = (\<lambda>v gm. Inr v),
      ecfToLookAngles = (\<lambda>og v. case v of Vec a b c \<Rightarrow>
                           Inr \<lparr>azimuth = Fin 0,
                                elevation = Fin (elevationDeg (finiteValue a) (finiteValue b)
                                                 * pi / 180),
                                rangeSat = Fin 1000\<rparr>)\<rparr>"

text \<open>A pass: at time 0 satellites 0 and 1 are at 30 degrees and satellite 2 is below
  the horizon; at time 1 satellites 0 and 1 have sunk to 10 degrees and satellite 2 is
  at the zenith.\<close>

definition passElevation :: "real \<Rightarrow> real \<Rightarrow> real" where
  "passElevation r t =
     (if t = 0 then (if r = 2 then - 10 else 30) else (if r = 2 then 90 else 10))"

definition passTick :: "nat \<Rightarrow> (nat, nat, string) terminal" where
  "passTick t =
     \<lparr>tleList = [''STARLINK-A'', ''STARLINK-B'', ''STARLINK-C''],
      satRecs = [Some 0, Some 1, Some 2],
      obs = defaultObserver,
      satlibrary = tableLibrary passElevation,
      now = t,
      weatherData = None,
      config = defaultConfig\<rparr>"

text \<open>What satellite \<open>i\<close> of the pass is tracked as at time 0.\<close>

definition passEntry :: "nat \<Rightarrow> string tracked" where
  "passEntry i =
     \<lparr>satellite = [''STARLINK-A'', ''STARLINK-B'', ''STARLINK-C''] ! i,
      state = \<lparr>lat = Fin 0, lon = Fin 0, alt = Fin 550, az = Fin 0, el = Fin 30,
               range_km = Fin 1000, speed = Fin 0\<rparr>,
      snr = Fin (SNR (calculateLinkBudget defaultConfig 30 0)),
      index = i\<rparr>"

text \<open>Two satellites near the horizon, at 0 and at 1 degree, for an observer whose
  minimum elevation is half a degree.\<close>

definition horizonGlobals :: "(nat, nat, string) terminal" where
  "horizonGlobals =
     \<lparr>tleList = [''STARLINK-A'', ''STARLINK-B''],
      satRecs = [Some 0, Some 1],
      obs = defaultObserver\<lparr>elevMin := 0.5\<rparr>,
      satlibrary = tableLibrary (\<lambda>r t. r),
      now = 0,
      weatherData = None,
      config = defaultConfig\<rparr>"

section \<open>Properties\<close>

subsection \<open>Link budget and rain attenuation\<close>

lemma SNR_terminal_closed:
  "SNR (calculateLinkBudget cfg e r) = snr_closed_form (considerRain cfg) e r"
  by (simp add: calculateLinkBudget_def snr_closed_form_def Let_def mult.commute)

lemma SNR_tactical_closed:
  "SNR (calculateLinkBudget_tactical cfg e r) = snr_closed_form (considerRain cfg) e r"
  by (simp add: calculateLinkBudget_tactical_def snr_closed_form_def Let_def mult.commute
      split: prod.splits)

text \<open>
  C3: for every elevation \<open>e\<close> and rain attenuation \<open>r\<close>, \<open>calculateLinkBudget\<close> of the
  terminal and of the tactical variant returns as \<open>SNR\<close> the closed-form expression
  \<open>(35 - FSPL - 0.5/sin(max(e,5) deg) - r' + 33) - (-134)\<close> with
  \<open>FSPL = 20 log10(1000 * 550/sin(max(e,1) deg)) + 20 log10(11.5e9) + 92.45\<close>, where
  \<open>r'\<close> is \<open>r\<close> when rain is considered and 0 otherwise. The value depends on the
  arguments and the configuration only.
\<close>

theorem calculateLinkBudget_SNR_closed_form:
  "SNR (calculateLinkBudget cfg e r) = snr_closed_form (considerRain cfg) e r
   \<and> SNR (calculateLinkBudget_tactical cfg e r) = snr_closed_form (considerRain cfg) e r"
  by (simp only: SNR_terminal_closed SNR_tactical_closed)

lemma sin_max5_pos:
  assumes "e < 180"
  shows "0 < sin (max e 5 * pi / 180)"
proof -
  have "0 < max e 5 * pi / 180"
    by (simp add: max_def)
  moreover have "max e 5 * pi / 180 < pi"
    using assms by (simp add: max_def)
  ultimately show ?thesis
    by (rule sin_gt_zero)
qed





subsection \<open>Adaptive modulation (tactical variant)\<close>

lemma ladder_rate:
  "snd (if (s::real) > 25 then (''256-APSK'', 400::int)
        else if s > 20 then (''128-APSK'', 350)
        else if s > 18 then (''64-APSK'', 300)
        else if s > 15 then (''32-APSK'', 250)
        else if s > 12 then (''16-APSK'', 200)
        else if s > 8 then (''8PSK'', 150)
        else (''QPSK'', 50))
   = (if s > 25 then 400 else if s > 20 then 350 else if s > 18 then 300
      else if s > 15 then 250 else if s > 12 then 200 else if s > 8 then 150 else 50)"
  by simp

lemma ladder_modulation:
  "fst (if (s::real) > 25 then (''256-APSK'', 400::int)
        else if s > 20 then (''128-APSK'', 350)
        else if s > 18 then (''64-APSK'', 300)
        else if s > 15 then (''32-APSK'', 250)
        else if s > 12 then (''16-APSK'', 200)
        else if s > 8 then (''8PSK'', 150)
        else (''QPSK'', 50))
   = (if s > 25 then ''256-APSK'' else if s > 20 then ''128-APSK''
      else if s > 18 then ''64-APSK'' else if s > 15 then ''32-APSK''
      else if s > 12 then ''16-APSK'' else if s > 8 then ''8PSK'' else ''QPSK'')"
  by simp

lemma tactical_dataRate:
  "dataRate (calculateLinkBudget_tactical cfg e r) =
     (let s = SNR (calculateLinkBudget_tactical cfg e r) in
      if s > 25 then 400 else if s > 20 then 350 else if s > 18 then 300
      else if s > 15 then 250 else if s > 12 then 200 else if s > 8 then 150 else 50)"
  by (simp only: calculateLinkBudget_tactical_def Let_def split_def
      linkBudgetTactical.select_convs linkBudget.select_convs ladder_rate)

lemma tactical_modulation:
  "modulation (calculateLinkBudget_tactical cfg e r) =
     (let s = SNR (calculateLinkBudget_tactical cfg e r) in
      if s > 25 then ''256-APSK'' else if s > 20 then ''128-APSK''
      else if s > 18 then ''64-APSK'' else if s > 15 then ''32-APSK''
      else if s > 12 then ''16-APSK'' else if s > 8 then ''8PSK'' else ''QPSK'')"
  by (simp only: calculateLinkBudget_tactical_def Let_def split_def
      linkBudgetTactical.select_convs linkBudget.select_convs ladder_modulation)

lemma tactical_dataRate_closed:
  "dataRate (calculateLinkBudget_tactical cfg e r) =
     (let s = snr_closed_form (considerRain cfg) e r in
      if s > 25 then 400 else if s > 20 then 350 else if s > 18 then 300
      else if s > 15 then 250 else if s > 12 then 200 else if s > 8 then 150 else 50)"
  by (simp only: tactical_dataRate SNR_tactical_closed)

lemma tactical_modulation_closed:
  "modulation (calculateLinkBudget_tactical cfg e r) =
     (let s = snr_closed_form (considerRain cfg) e r in
      if s > 25 then ''256-APSK'' else if s > 20 then ''128-APSK''
      else if s > 18 then ''64-APSK'' else if s > 15 then ''32-APSK''
      else if s > 12 then ''16-APSK'' else if s > 8 then ''8PSK'' else ''QPSK'')"
  by (simp only: tactical_modulation SNR_tactical_closed)

lemma tactical_dataRate_mono:
  assumes "snr_closed_form (considerRain c1) e1 r1 \<le> snr_closed_form (considerRain c2) e2 r2"
  shows "dataRate (calculateLinkBudget_tactical c1 e1 r1)
           \<le> dataRate (calculateLinkBudget_tactical c2 e2 r2)"
proof -
  define s1 where "s1 = snr_closed_form (considerRain c1) e1 r1"
  define s2 where "s2 = snr_closed_form (considerRain c2) e2 r2"
  have le: "s1 \<le> s2"
    using assms by (simp only: s1_def s2_def)
  have d1: "dataRate (calculateLinkBudget_tactical c1 e1 r1) =
      (if s1 > 25 then 400 else if s1 > 20 then 350 else if s1 > 18 then 300
       else if s1 > 15 then 250 else if s1 > 12 then 200 else if s1 > 8 then 150 else 50)"
    by (simp only: tactical_dataRate_closed Let_def s1_def)
  have d2: "dataRate (calculateLinkBudget_tactical c2 e2 r2) =
      (if s2 > 25 then 400 else if s2 > 20 then 350 else if s2 > 18 then 300
       else if s2 > 15 then 250 else if s2 > 12 then 200 else if s2 > 8 then 150 else 50)"
    by (simp only: tactical_dataRate_closed Let_def s2_def)
  show ?thesis
    unfolding d1 d2 using le by (simp split: if_splits)
qed

text \<open>Bounds on the two logarithms of the path loss at the zenith, from
  \<open>10^143 < 550000^25 < 10^144\<close> and \<open>10^251 < 11500000000^25 < 10^252\<close>.\<close>

lemma log10_lower:
  assumes "(10::real) ^ a < x ^ b" and "0 < x" and "0 < b"
  shows "real a / real b < log 10 x"
proof -
  have "(log 10 ((10::real) ^ a) < log 10 (x ^ b)) = ((10::real) ^ a < x ^ b)"
    by (rule log_less_cancel_iff) (use assms in simp_all)
  then have "log 10 ((10::real) ^ a) < log 10 (x ^ b)"
    using assms(1) by (simp only: simp_thms)
  then have "real a < real b * log 10 x"
    using assms(2) by (simp add: log_nat_power)
  then show ?thesis
    using assms(3) by (simp add: field_simps)
qed

lemma log10_upper:
  assumes "x ^ b < (10::real) ^ a" and "0 < x" and "0 < b"
  shows "log 10 x < real a / real b"
proof -
  have "(log 10 (x ^ b) < log 10 ((10::real) ^ a)) = (x ^ b < (10::real) ^ a)"
    by (rule log_less_cancel_iff) (use assms in simp_all)
  then have "log 10 (x ^ b) < log 10 ((10::real) ^ a)"
    using assms(1) by (simp only: simp_thms)
  then have "real b * log 10 x < real a"
    using assms(2) by (simp add: log_nat_power)
  then show ?thesis
    using assms(3) by (simp add: field_simps)
qed

lemma log10_distance: "143 / 25 < log 10 550000 \<and> log 10 550000 < 144 / 25"
  using log10_lower [of 143 550000 25] log10_upper [of 550000 25 144] by simp

lemma log10_frequency: "251 / 25 < log 10 11500000000 \<and> log 10 11500000000 < 252 / 25"
  using log10_lower [of 251 11500000000 25] log10_upper [of 11500000000 25 252] by simp

lemma sin_zenith: "sin ((90::real) * pi / 180) = 1"
proof -
  have "(90::real) * pi / 180 = pi / 2"
    by simp
  then show ?thesis
    by (simp only: sin_pi_half)
qed

lemma snr_zenith:
  "snr_closed_form True 90 r
     = 201.5 - (20 * log 10 550000 + 20 * log 10 11500000000 + 92.45) - r"
proof -
  have m: "max (90::real) 1 = 90" "max (90::real) 5 = 90"
    by simp_all
  show ?thesis
    by (simp only: snr_closed_form_def m sin_zenith if_True) simp
qed

lemma snr_zenith_bounds:
  "- 207.75 - r < snr_closed_form True 90 r \<and> snr_closed_form True 90 r < - 206.15 - r"
  using log10_distance log10_frequency by (simp only: snr_zenith) simp

text \<open>
  C6: in the tactical variant the SNR is the closed form of the link budget, and the
  modulation and the data rate are a step function of it (above 25: 256-APSK at 400
  Mbps; above 20: 128-APSK at 350; above 18: 64-APSK at 300; above 15: 32-APSK at 250;
  above 12: 16-APSK at 200; above 8: 8PSK at 150; otherwise QPSK at 50); for any two
  inputs a higher SNR never gives a lower data rate.
\<close>

theorem tactical_modulation_step_monotone:
  "SNR (calculateLinkBudget_tactical cfg e r) = snr_closed_form (considerRain cfg) e r
   \<and> modulation (calculateLinkBudget_tactical cfg e r) =
     (let s = snr_closed_form (considerRain cfg) e r in
      if s > 25 then ''256-APSK'' else if s > 20 then ''128-APSK''
      else if s > 18 then ''64-APSK'' else if s > 15 then ''32-APSK''
      else if s > 12 then ''16-APSK'' else if s > 8 then ''8PSK'' else ''QPSK'')
   \<and> dataRate (calculateLinkBudget_tactical cfg e r) =
     (let s = snr_closed_form (considerRain cfg) e r in
      if s > 25 then 400 else if s > 20 then 350 else if s > 18 then 300
      else if s > 15 then 250 else if s > 12 then 200 else if s > 8 then 150 else 50)
   \<and> (snr_closed_form (considerRain c1) e1 r1 \<le> snr_closed_form (considerRain c2) e2 r2
        \<longrightarrow> dataRate (calculateLinkBudget_tactical c1 e1 r1)
              \<le> dataRate (calculateLinkBudget_tactical c2 e2 r2))"
  using SNR_tactical_closed [of cfg e r] tactical_modulation_closed [of cfg e r]
    tactical_dataRate_closed [of cfg e r] tactical_dataRate_mono [of c1 e1 r1 c2 e2 r2]
  by blast

text \<open>
  The seven steps, at the zenith with rain considered. The SNR there is between
  \<open>-207.75 - r\<close> and \<open>-206.15 - r\<close>: the rain attenuations the application computes
  are not negative, so it reports QPSK at 50 Mbps; the other steps are reached with
  rain terms from -217 down.
\<close>

theorem tactical_modulation_step_monotone_witness:
  "map (\<lambda>r. (modulation (calculateLinkBudget_tactical defaultConfig 90 r),
              dataRate (calculateLinkBudget_tactical defaultConfig 90 r)))
       [0, - 217, - 220, - 223, - 226, - 229, - 240]
     = [(''QPSK'', 50), (''8PSK'', 150), (''16-APSK'', 200), (''32-APSK'', 250),
        (''64-APSK'', 300), (''128-APSK'', 350), (''256-APSK'', 400)]
   \<and> snr_closed_form (considerRain defaultConfig) 90 (- 217)
       \<le> snr_closed_form (considerRain defaultConfig) 90 (- 226)
   \<and> dataRate (calculateLinkBudget_tactical defaultConfig 90 (- 217))
       \<le> dataRate (calculateLinkBudget_tactical defaultConfig 90 (- 226))"
proof -
  have rainy: "considerRain defaultConfig = True"
    by (simp add: defaultConfig_def)
  have le: "snr_closed_form (considerRain defaultConfig) 90 (- 217)
              \<le> snr_closed_form (considerRain defaultConfig) 90 (- 226)"
    by (simp add: rainy snr_zenith)
  have step: "modulation (calculateLinkBudget_tactical defaultConfig 90 r) =
      (let s = snr_closed_form True 90 r in
       if s > 25 then ''256-APSK'' else if s > 20 then ''128-APSK''
       else if s > 18 then ''64-APSK'' else if s > 15 then ''32-APSK''
       else if s > 12 then ''16-APSK'' else if s > 8 then ''8PSK'' else ''QPSK'')
    \<and> dataRate (calculateLinkBudget_tactical defaultConfig 90 r) =
      (let s = snr_closed_form True 90 r in
       if s > 25 then 400 else if s > 20 then 350 else if s > 18 then 300
       else if s > 15 then 250 else if s > 12 then 200 else if s > 8 then 150 else 50)"
    for r
    using tactical_modulation_step_monotone [of defaultConfig 90 r]
    by (simp only: rainy simp_thms)
  have mono: "dataRate (calculateLinkBudget_tactical defaultConfig 90 (- 217))
                \<le> dataRate (calculateLinkBudget_tactical defaultConfig 90 (- 226))"
    using tactical_modulation_step_monotone
      [of defaultConfig 90 0 defaultConfig 90 "- 217" defaultConfig 90 "- 226"] le
    by blast
  have rungs: "map (\<lambda>r. (modulation (calculateLinkBudget_tactical defaultConfig 90 r),
              dataRate (calculateLinkBudget_tactical defaultConfig 90 r)))
       [0, - 217, - 220, - 223, - 226, - 229, - 240]
     = [(''QPSK'', 50), (''8PSK'', 150), (''16-APSK'', 200), (''32-APSK'', 250),
        (''64-APSK'', 300), (''128-APSK'', 350), (''256-APSK'', 400)]"
    using snr_zenith_bounds [of 0] snr_zenith_bounds [of "- 217"] snr_zenith_bounds [of "- 220"]
      snr_zenith_bounds [of "- 223"] snr_zenith_bounds [of "- 226"]
      snr_zenith_bounds [of "- 229"] snr_zenith_bounds [of "- 240"]
    by (simp add: step Let_def)
  from rungs le mono show ?thesis
    by blast
qed

subsection \<open>The enhanced variant against the terminal and tactical variants\<close>

lemma log_free_space_constant: "log 10 (4 * pi / SPEED_OF_LIGHT) < - 7"
proof -
  have pos: "0 < 4 * pi / SPEED_OF_LIGHT"
    by (simp add: SPEED_OF_LIGHT_def)
  have "4 * pi < 16"
    using pi_less_4 by simp
  then have "4 * pi / SPEED_OF_LIGHT < 1 / 10 ^ 7"
    by (simp add: SPEED_OF_LIGHT_def field_simps)
  also have "(1::real) / 10 ^ 7 = 10 powr (- 7)"
    by (simp add: powr_minus_divide)
  finally have "4 * pi / SPEED_OF_LIGHT < 10 powr (- 7)" .
  then show ?thesis
    using pos by (simp add: log_less_iff)
qed

lemma log_noise_power: "log 10 (BOLTZMANN * NOISE_TEMP * BANDWIDTH) < - 11"
proof -
  have pos: "0 < BOLTZMANN * NOISE_TEMP * BANDWIDTH"
    by (simp add: BOLTZMANN_def NOISE_TEMP_def BANDWIDTH_def)
  have "BOLTZMANN * NOISE_TEMP * BANDWIDTH < 1 / 10 ^ 11"
    by (simp add: BOLTZMANN_def NOISE_TEMP_def BANDWIDTH_def)
  also have "(1::real) / 10 ^ 11 = 10 powr (- 11)"
    by (simp add: powr_minus_divide)
  finally have "BOLTZMANN * NOISE_TEMP * BANDWIDTH < 10 powr (- 11)" .
  then show ?thesis
    using pos by (simp add: log_less_iff)
qed

lemma log_noise_power_lower: "- 13 < log 10 (BOLTZMANN * NOISE_TEMP * BANDWIDTH)"
proof -
  have "(1::real) / 10 ^ 13 < BOLTZMANN * NOISE_TEMP * BANDWIDTH"
    by (simp add: BOLTZMANN_def NOISE_TEMP_def BANDWIDTH_def)
  moreover have "(1::real) / 10 ^ 13 = 10 powr (- 13)"
    by (simp add: powr_minus_divide)
  ultimately have "10 powr (- 13) < BOLTZMANN * NOISE_TEMP * BANDWIDTH"
    by simp
  moreover have "0 < BOLTZMANN * NOISE_TEMP * BANDWIDTH"
    by (simp add: BOLTZMANN_def NOISE_TEMP_def BANDWIDTH_def)
  ultimately show ?thesis
    by (simp add: less_log_iff)
qed

lemma sin_elevation_pos:
  assumes "0 < e" and "e \<le> 90"
  shows "0 < sin (e * pi / 180)"
proof -
  have "0 < e * pi / 180"
    using assms(1) by simp
  moreover have "e * pi / 180 < pi"
    using assms(2) by simp
  ultimately show ?thesis
    by (rule sin_gt_zero)
qed

text \<open>The enhanced variant returns finite numbers for an elevation above the horizon
  and a positive frequency, and the fields of the object are these.\<close>

lemma enhanced_finite:
  assumes "0 < e" and "e \<le> 90" and "0 < f"
  shows "calculateLinkBudget_enhanced e f =
    Some \<lparr>distance_e = 550 / sin (e * pi / 180),
          FSPL_e = 20 * log 10 (550 / sin (e * pi / 180) * 1000) + 20 * log 10 f
                   + 20 * log 10 (4 * pi / SPEED_OF_LIGHT),
          atmosphericLoss_e = 0.5 / sin (max e 5 * pi / 180),
          rainLoss_e = (if e < 10 then 3 else if e < 20 then 1.5 else 0.5),
          rxPower_e = SATELLITE_EIRP
                      - (20 * log 10 (550 / sin (e * pi / 180) * 1000) + 20 * log 10 f
                         + 20 * log 10 (4 * pi / SPEED_OF_LIGHT))
                      - 0.5 / sin (max e 5 * pi / 180)
                      - (if e < 10 then 3 else if e < 20 then 1.5 else 0.5) + TERMINAL_GAIN,
          noiseFloor_e = 10 * log 10 (BOLTZMANN * NOISE_TEMP * BANDWIDTH),
          SNR_e = SATELLITE_EIRP
                  - (20 * log 10 (550 / sin (e * pi / 180) * 1000) + 20 * log 10 f
                     + 20 * log 10 (4 * pi / SPEED_OF_LIGHT))
                  - 0.5 / sin (max e 5 * pi / 180)
                  - (if e < 10 then 3 else if e < 20 then 1.5 else 0.5) + TERMINAL_GAIN
                  - 10 * log 10 (BOLTZMANN * NOISE_TEMP * BANDWIDTH) - 30,
          marginDb_e = SATELLITE_EIRP
                  - (20 * log 10 (550 / sin (e * pi / 180) * 1000) + 20 * log 10 f
                     + 20 * log 10 (4 * pi / SPEED_OF_LIGHT))
                  - 0.5 / sin (max e 5 * pi / 180)
                  - (if e < 10 then 3 else if e < 20 then 1.5 else 0.5) + TERMINAL_GAIN
                  - 10 * log 10 (BOLTZMANN * NOISE_TEMP * BANDWIDTH) - 30 - 10\<rparr>"
proof -
  have s1: "0 < sin (e * pi / 180)"
    using assms(1,2) by (rule sin_elevation_pos)
  have "e < 180"
    using assms(2) by simp
  then have s5: "0 < sin (max e 5 * pi / 180)"
    by (rule sin_max5_pos)
  have guard: "\<not> (sin (e * pi / 180) \<le> 0 \<or> f \<le> 0 \<or> sin (max e 5 * pi / 180) = 0)"
    using s1 s5 assms(3) by simp
  show ?thesis
    by (simp only: calculateLinkBudget_enhanced_def guard if_False Let_def)
qed

text \<open>At the horizon and below it, down to -180 degrees, the result is not finite: the
  sine is 0 or negative there.\<close>

lemma enhanced_not_finite:
  assumes "- 180 \<le> e" and "e \<le> 0"
  shows "calculateLinkBudget_enhanced e f = None"
proof -
  have "(- 180) * pi \<le> e * pi"
    using assms(1) by (intro mult_right_mono) simp_all
  then have "- pi \<le> e * pi / 180"
    by simp
  moreover have "e * pi \<le> 0 * pi"
    using assms(2) by (intro mult_right_mono) simp_all
  then have "e * pi / 180 \<le> 0"
    by simp
  ultimately have "0 \<le> sin (- (e * pi / 180))"
    by (intro sin_ge_zero) simp_all
  then have "sin (e * pi / 180) \<le> 0"
    by (simp only: sin_minus neg_0_le_iff_le)
  then show ?thesis
    by (simp add: calculateLinkBudget_enhanced_def)
qed

lemma terminal_before_path_loss:
  "rxPower (calculateLinkBudget cfg e 0) + FSPL (calculateLinkBudget cfg e 0)
     = 35 - 0.5 / sin (max e 5 * pi / 180) + 33
   \<and> SNR (calculateLinkBudget cfg e 0) = rxPower (calculateLinkBudget cfg e 0) - (- 134)"
  by (simp add: calculateLinkBudget_def Let_def)

lemma tactical_fields_eq_terminal:
  "rxPower (calculateLinkBudget_tactical cfg e r) = rxPower (calculateLinkBudget cfg e r)
   \<and> FSPL (calculateLinkBudget_tactical cfg e r) = FSPL (calculateLinkBudget cfg e r)
   \<and> SNR (calculateLinkBudget_tactical cfg e r) = SNR (calculateLinkBudget cfg e r)"
  by (simp only: calculateLinkBudget_tactical_def calculateLinkBudget_def Let_def split_def
      linkBudgetTactical.select_convs linkBudget.select_convs simp_thms)

lemma enhanced_zenith:
  "calculateLinkBudget_enhanced 90 FREQ_DOWNLINK \<noteq> None
   \<and> SNR_e (the (calculateLinkBudget_enhanced 90 FREQ_DOWNLINK))
       = 35 - (20 * log 10 550000 + 20 * log 10 11500000000
                + 20 * log 10 (4 * pi / SPEED_OF_LIGHT))
         - 0.5 - 0.5 + 33 - 10 * log 10 (BOLTZMANN * NOISE_TEMP * BANDWIDTH) - 30"
proof -
  have m: "max (90::real) 5 = 90"
    by simp
  have f: "(0::real) < FREQ_DOWNLINK"
    by (simp add: FREQ_DOWNLINK_def)
  have "calculateLinkBudget_enhanced 90 FREQ_DOWNLINK \<noteq> None"
    using enhanced_finite [of 90 FREQ_DOWNLINK] f by simp
  moreover have "SNR_e (the (calculateLinkBudget_enhanced 90 FREQ_DOWNLINK))
       = 35 - (20 * log 10 550000 + 20 * log 10 11500000000
                + 20 * log 10 (4 * pi / SPEED_OF_LIGHT))
         - 0.5 - 0.5 + 33 - 10 * log 10 (BOLTZMANN * NOISE_TEMP * BANDWIDTH) - 30"
    using enhanced_finite [of 90 FREQ_DOWNLINK] f
    by (simp add: m sin_zenith FREQ_DOWNLINK_def SATELLITE_EIRP_def TERMINAL_GAIN_def)
  ultimately show ?thesis
    by (rule conjI)
qed

lemma terminal_zenith:
  "SNR (calculateLinkBudget cfg 90 0)
     = 201.5 - (20 * log 10 550000 + 20 * log 10 11500000000 + 92.45)"
  using snr_zenith [of 0] by (simp add: SNR_terminal_closed snr_closed_form_def)

text \<open>
  C7, as stated, fails: at 90 degrees the enhanced variant returns a finite SNR, which
  is not the terminal variant's (nor the tactical variant's) without rain.
\<close>

theorem enhanced_SNR_equal_counterexample:
  "calculateLinkBudget_enhanced 90 FREQ_DOWNLINK \<noteq> None
   \<and> SNR_e (the (calculateLinkBudget_enhanced 90 FREQ_DOWNLINK))
     \<noteq> SNR (calculateLinkBudget defaultConfig 90 0)
   \<and> SNR_e (the (calculateLinkBudget_enhanced 90 FREQ_DOWNLINK))
     \<noteq> SNR (calculateLinkBudget_tactical defaultConfig 90 0)"
proof -
  have "SNR (calculateLinkBudget defaultConfig 90 0)
          < SNR_e (the (calculateLinkBudget_enhanced 90 FREQ_DOWNLINK))"
    using log_free_space_constant log_noise_power
    by (simp only: enhanced_zenith terminal_zenith) simp
  then show ?thesis
    using enhanced_zenith by (simp only: tactical_fields_eq_terminal) simp
qed

text \<open>
  C7 (amended): the enhanced variant has a link-budget computation of its own, which
  shares with the terminal and tactical variants the transmit power, the antenna gain
  and the atmospheric loss, and nothing else. For every elevation above the horizon
  (up to 90 degrees) and every positive frequency it returns finite numbers; its
  received power before free-space path loss (\<open>rxPower + FSPL\<close>) is that of the
  terminal and tactical \<open>calculateLinkBudget\<close> without rain, \<open>35 - 0.5/sin(max(e,5)
  deg) + 33\<close>, less its own rain loss of 3, 1.5 or 0.5 dB (below 10 degrees, below 20
  degrees, otherwise); its SNR is its received power minus a noise floor computed as
  \<open>10 log10(k T B) + 30\<close>, between -100 and -80 dB, where the terminal and tactical
  variants subtract the constant -134. The free-space path-loss terms of the variants
  are not compared.
\<close>

theorem enhanced_link_budget_relation:
  assumes "0 < e" and "e \<le> 90" and "0 < f"
  shows "\<exists>lb. calculateLinkBudget_enhanced e f = Some lb
     \<and> rxPower_e lb + FSPL_e lb
       = rxPower (calculateLinkBudget cfg e 0) + FSPL (calculateLinkBudget cfg e 0)
         - rainLoss_e lb
     \<and> rxPower_e lb + FSPL_e lb
       = rxPower (calculateLinkBudget_tactical cfg e 0)
         + FSPL (calculateLinkBudget_tactical cfg e 0) - rainLoss_e lb
     \<and> rxPower (calculateLinkBudget cfg e 0) + FSPL (calculateLinkBudget cfg e 0)
       = 35 - 0.5 / sin (max e 5 * pi / 180) + 33
     \<and> atmosphericLoss_e lb = 0.5 / sin (max e 5 * pi / 180)
     \<and> rainLoss_e lb = (if e < 10 then 3 else if e < 20 then 1.5 else 0.5)
     \<and> SNR_e lb = rxPower_e lb - (10 * log 10 (BOLTZMANN * NOISE_TEMP * BANDWIDTH) + 30)
     \<and> - 100 < 10 * log 10 (BOLTZMANN * NOISE_TEMP * BANDWIDTH) + 30
     \<and> 10 * log 10 (BOLTZMANN * NOISE_TEMP * BANDWIDTH) + 30 < - 80
     \<and> SNR (calculateLinkBudget cfg e 0) = rxPower (calculateLinkBudget cfg e 0) - (- 134)
     \<and> SNR (calculateLinkBudget_tactical cfg e 0)
       = rxPower (calculateLinkBudget_tactical cfg e 0) - (- 134)"
proof -
  have floor: "- 100 < 10 * log 10 (BOLTZMANN * NOISE_TEMP * BANDWIDTH) + 30"
      "10 * log 10 (BOLTZMANN * NOISE_TEMP * BANDWIDTH) + 30 < - 80"
    using log_noise_power log_noise_power_lower by simp_all
  show ?thesis
    using floor terminal_before_path_loss [of cfg e]
    by (simp add: enhanced_finite [OF assms] tactical_fields_eq_terminal
        SATELLITE_EIRP_def TERMINAL_GAIN_def)
qed

theorem enhanced_link_budget_relation_witness:
  "(0::real) < 45 \<and> (45::real) \<le> 90 \<and> 0 < FREQ_DOWNLINK
   \<and> calculateLinkBudget_enhanced 45 FREQ_DOWNLINK \<noteq> None
   \<and> rainLoss_e (the (calculateLinkBudget_enhanced 45 FREQ_DOWNLINK)) = 0.5
   \<and> rxPower_e (the (calculateLinkBudget_enhanced 45 FREQ_DOWNLINK))
       + FSPL_e (the (calculateLinkBudget_enhanced 45 FREQ_DOWNLINK))
     = rxPower (calculateLinkBudget defaultConfig 45 0)
       + FSPL (calculateLinkBudget defaultConfig 45 0) - 0.5"
proof -
  have h: "(0::real) < 45" "(45::real) \<le> 90" "0 < FREQ_DOWNLINK"
    by (simp_all add: FREQ_DOWNLINK_def)
  from enhanced_link_budget_relation [OF h, of defaultConfig]
  obtain lb where lb: "calculateLinkBudget_enhanced 45 FREQ_DOWNLINK = Some lb"
    and before: "rxPower_e lb + FSPL_e lb
       = rxPower (calculateLinkBudget defaultConfig 45 0)
         + FSPL (calculateLinkBudget defaultConfig 45 0) - rainLoss_e lb"
    and loss: "rainLoss_e lb = (if (45::real) < 10 then 3 else if (45::real) < 20 then 1.5 else 0.5)"
    by blast
  have "rainLoss_e lb = 0.5"
    using loss by simp
  then show ?thesis
    using h lb before by simp
qed
subsection \<open>The basic variant's \<open>getSatState\<close>\<close>








subsection \<open>The sampling loop\<close>

lemma count_step:
  assumes "i < n" and "0 < step"
  shows "(n - i + step - 1) div step = Suc ((n - (i + step) + step - 1) div step)"
proof (cases "step \<le> n - i")
  case True
  then have "n - i + step - 1 = (n - (i + step) + step - 1) + step"
    using assms by simp
  then have "(n - i + step - 1) div step = ((n - (i + step) + step - 1) + step) div step"
    by (rule arg_cong)
  also have "\<dots> = Suc ((n - (i + step) + step - 1) div step)"
    using assms(2) by (simp only: div_add_self2)
  finally show ?thesis .
next
  case False
  then have past: "n - (i + step) = 0"
    by simp
  have none: "(step - 1) div step = 0"
    using assms by simp
  have "step \<le> n - i + step - 1"
    using assms by simp
  moreover have "n - i + step - 1 < 2 * step"
    using False assms by simp
  ultimately have "(n - i + step - 1) div step = 1"
    by (intro div_nat_eqI) simp_all
  then show ?thesis
    using past none by simp
qed

lemma forStep_fold:
  assumes "0 < step"
  shows "forStep n step body i acc =
           Some (fold body (map (\<lambda>k. i + k * step) [0..<(n - i + step - 1) div step]) acc)"
proof (induction "n - i" arbitrary: i acc rule: less_induct)
  case less
  show ?case
  proof (cases "i < n")
    case True
    have closer: "n - (i + step) < n - i"
      using True assms by simp
    have cnt: "(n - i + step - 1) div step = Suc ((n - (i + step) + step - 1) div step)"
      using True assms by (rule count_step)
    have shift: "map (\<lambda>k. i + k * step) [0..<Suc c]
                   = i # map (\<lambda>k. (i + step) + k * step) [0..<c]" for c
    proof -
      have "[0..<Suc c] = 0 # map Suc [0..<c]"
        by (simp only: map_Suc_upt upt_conv_Cons [OF zero_less_Suc])
      then show ?thesis
        by (simp add: comp_def add.assoc del: upt_Suc)
    qed
    have "forStep n step body i acc = forStep n step body (i + step) (body i acc)"
      using True by (subst forStep.simps) simp
    also have "\<dots> = Some (fold body
        (map (\<lambda>k. (i + step) + k * step) [0..<(n - (i + step) + step - 1) div step])
        (body i acc))"
      using less [OF closer] .
    finally show ?thesis
      unfolding cnt shift by simp
  next
    case False
    then have "(n - i + step - 1) div step = 0"
      using assms by simp
    moreover have "forStep n step body i acc = Some acc"
      using False by (subst forStep.simps) simp
    ultimately show ?thesis
      by simp
  qed
qed

lemma sampleStep_covers: "n \<le> MAX_SATS * sampleStep n"
proof -
  have "real n / real MAX_SATS \<le> real_of_int \<lceil>real n / real MAX_SATS\<rceil>"
    by (rule le_of_int_ceiling)
  moreover have "0 \<le> \<lceil>real n / real MAX_SATS\<rceil>"
    by (simp add: MAX_SATS_def)
  ultimately have "real n / real MAX_SATS \<le> real (sampleStep n)"
    by (simp add: sampleStep_def)
  then have "real n \<le> real (MAX_SATS * sampleStep n)"
    by (simp add: MAX_SATS_def field_simps)
  then show ?thesis
    by (simp only: of_nat_le_iff)
qed

lemma sampleStep_pos: "0 < n \<Longrightarrow> 0 < sampleStep n"
  using sampleStep_covers [of n] by (cases "sampleStep n = 0") simp_all

lemma sampleStep_0: "sampleStep 0 = 0"
  by (simp add: sampleStep_def)

lemma sample_count: "(n + sampleStep n - 1) div sampleStep n \<le> MAX_SATS"
proof (cases "n = 0")
  case True
  then show ?thesis
    by (simp add: sampleStep_0)
next
  case False
  then have pos: "0 < sampleStep n"
    by (simp add: sampleStep_pos)
  have "n + sampleStep n - 1 < (MAX_SATS + 1) * sampleStep n"
    using sampleStep_covers [of n] pos by simp
  then have "(n + sampleStep n - 1) div sampleStep n < MAX_SATS + 1"
    using pos by (simp add: less_mult_imp_div_less)
  then show ?thesis
    by simp
qed

lemma forStep_sampled:
  "forStep n (sampleStep n) body 0 acc = Some (fold body (sampledIndices n) acc)"
proof (cases "n = 0")
  case True
  then show ?thesis
    by (subst forStep.simps) (simp add: sampleStep_0 sampledIndices_def)
next
  case False
  then have "0 < sampleStep n"
    by (simp add: sampleStep_pos)
  from forStep_fold [OF this, of n body 0 acc] show ?thesis
    by (simp add: sampledIndices_def)
qed

lemma sampledIndices_length: "length (sampledIndices n) \<le> 1000"
  using sample_count [of n] by (simp add: sampledIndices_def MAX_SATS_def)

lemma sampledIndices_below:
  assumes "i \<in> set (sampledIndices n)"
  shows "i < n"
proof -
  from assms obtain k where k: "k < (n + sampleStep n - 1) div sampleStep n"
      and i: "i = k * sampleStep n"
    by (auto simp: sampledIndices_def)
  have pos: "0 < sampleStep n"
    using k by (cases "sampleStep n = 0") simp_all
  from k have "Suc k \<le> (n + sampleStep n - 1) div sampleStep n"
    by simp
  then have "Suc k * sampleStep n \<le> n + sampleStep n - 1"
    using pos by (simp only: less_eq_div_iff_mult_less_eq)
  then show ?thesis
    using pos i by simp
qed

lemma visitedIndices_sampled: "visitedIndices n = Some (sampledIndices n)"
proof -
  have "fold (\<lambda>i visited. visited @ [i]) xs acc = acc @ xs" for xs acc :: "nat list"
    by (induction xs arbitrary: acc) simp_all
  then show ?thesis
    by (simp add: visitedIndices_def forStep_sampled)
qed

lemma fold_markers_length:
  assumes "\<And>i fr. length (markers (body i fr)) \<le> Suc (length (markers fr))"
  shows "length (markers (fold body xs fr)) \<le> length (markers fr) + length xs"
proof (induction xs arbitrary: fr)
  case Nil
  then show ?case
    by simp
next
  case (Cons x xs)
  have "length (markers (fold body (x # xs) fr)) \<le> length (markers (body x fr)) + length xs"
    using Cons by simp
  also have "\<dots> \<le> Suc (length (markers fr)) + length xs"
    using assms by simp
  finally show ?case
    by simp
qed

lemma drawSatellite_one_marker:
  "length (markers (drawSatellite g i fr)) \<le> Suc (length (markers fr))"
  by (simp add: drawSatellite_def Let_def split: option.splits)

lemma drawSatellite_terminal_one_marker:
  "length (markers (drawSatellite_terminal g h i fr)) \<le> Suc (length (markers fr))"
  by (simp add: drawSatellite_terminal_def Let_def split_def split: option.splits)

lemma drawFrame_fold:
  "drawFrame g False shown
     = Some (fold (drawSatellite g) (sampledIndices (length (tleList g))) emptyFrame)"
  by (simp add: drawFrame_def Let_def forStep_sampled)

lemma drawFrame_terminal_fold:
  "drawFrame_terminal g h False shown
     = Some (fold (drawSatellite_terminal g h) (sampledIndices (length (tleList g))) emptyFrame)"
  by (simp add: drawFrame_terminal_def Let_def forStep_sampled)

text \<open>
  C10: for every list length \<open>n\<close>, the loop \<open>i = 0, step, 2 * step, ...\<close> with
  \<open>step = ceil(n / 1000)\<close> ends, every index it visits is below \<open>n\<close>, and it visits at
  most 1000 of them; so a frame of the basic and of the terminal variant holds at most
  1000 markers, however many TLEs are loaded.
\<close>

theorem drawFrame_samples_at_most_1000:
  "visitedIndices n = Some (sampledIndices n)
   \<and> length (sampledIndices n) \<le> 1000
   \<and> list_all (\<lambda>i. i < n) (sampledIndices n)
   \<and> (\<exists>fr. drawFrame g False shown = Some fr \<and> length (markers fr) \<le> 1000)
   \<and> (\<exists>fr. drawFrame_terminal gt h False shownt = Some fr \<and> length (markers fr) \<le> 1000)"
proof -
  have below: "list_all (\<lambda>i. i < n) (sampledIndices n)"
    using sampledIndices_below [of _ n] by (simp add: list_all_iff)
  have "length (markers (fold (drawSatellite g) (sampledIndices (length (tleList g)))
                  (emptyFrame :: (real marker, real) frame)))
          \<le> length (markers (emptyFrame :: (real marker, real) frame))
             + length (sampledIndices (length (tleList g)))"
    by (rule fold_markers_length) (rule drawSatellite_one_marker)
  then have basic: "length (markers (fold (drawSatellite g) (sampledIndices (length (tleList g)))
                  (emptyFrame :: (real marker, real) frame))) \<le> 1000"
    using sampledIndices_length [of "length (tleList g)"] by (simp add: emptyFrame_def)
  have "length (markers (fold (drawSatellite_terminal gt h)
                  (sampledIndices (length (tleList gt))) (emptyFrame :: (markerT, jsnum) frame)))
          \<le> length (markers (emptyFrame :: (markerT, jsnum) frame))
             + length (sampledIndices (length (tleList gt)))"
    by (rule fold_markers_length) (rule drawSatellite_terminal_one_marker)
  then have terminal: "length (markers (fold (drawSatellite_terminal gt h)
                  (sampledIndices (length (tleList gt))) (emptyFrame :: (markerT, jsnum) frame))) \<le> 1000"
    using sampledIndices_length [of "length (tleList gt)"] by (simp add: emptyFrame_def)
  show ?thesis
    using visitedIndices_sampled [of n] sampledIndices_length [of n] below basic terminal
    by (simp add: drawFrame_fold drawFrame_terminal_fold)
qed

subsection \<open>Marker colours\<close>

lemma table_state:
  "getSatState_terminal (tableLibrary f) ob (Some r) t =
     Some \<lparr>lat = Fin 0, lon = Fin 0, alt = Fin 550, az = Fin 0, el = Fin (f (real r) (real t)),
            range_km = Fin 1000, speed = Fin 0\<rparr>"
  by (simp add: getSatState_terminal_def getSatState_terminal_try_def tableLibrary_def
      thenE_def Let_def)

lemma drawSatellite_terminal_color:
  "map m_color (markers (drawSatellite_terminal g h i fr))
     = map m_color (markers fr) @ markerColor_terminal g h i"
  by (simp add: drawSatellite_terminal_def markerColor_terminal_def Let_def split_def
      split: option.splits)

lemma drawSatellite_color:
  "map m_color (markers (drawSatellite g i fr))
     = map m_color (markers fr) @ markerColor_basic g i"
  by (simp add: drawSatellite_def markerColor_basic_def Let_def split: option.splits)

lemma fold_colors:
  assumes "\<And>i fr. map m_color (markers (body i fr)) = map m_color (markers fr) @ col i"
  shows "map m_color (markers (fold body xs fr))
           = map m_color (markers fr) @ concat (map col xs)"
  using assms by (induction xs arbitrary: fr) simp_all

lemma sampleStep_2: "sampleStep 2 = 1"
proof -
  have "\<lceil>(2::real) / 1000\<rceil> = 1"
    by (rule ceiling_unique) simp_all
  then show ?thesis
    by (simp add: sampleStep_def MAX_SATS_def)
qed

lemma sampledIndices_2: "sampledIndices 2 = [0, 1]"
  by (simp add: sampledIndices_def sampleStep_2 upt_rec)

lemma horizon_frame:
  "drawFrame_terminal horizonGlobals initialHandover False emptyFrame
     = Some (drawSatellite_terminal horizonGlobals initialHandover 1
               (drawSatellite_terminal horizonGlobals initialHandover 0 emptyFrame))"
proof -
  have "length (tleList horizonGlobals) = 2"
    by (simp add: horizonGlobals_def)
  then show ?thesis
    by (simp add: drawFrame_terminal_fold sampledIndices_2)
qed

lemma horizon_markers:
  "map (\<lambda>m. (m_color m, m_popupSNR m))
       (markers (drawSatellite_terminal horizonGlobals initialHandover 1
                  (drawSatellite_terminal horizonGlobals initialHandover 0 emptyFrame)))
     = [(''#004400'', Fin (SNR (calculateLinkBudget defaultConfig 0 0))),
        (''#00ff00'', Fin (SNR (calculateLinkBudget defaultConfig 1 0)))]"
  by (simp add: drawSatellite_terminal_def horizonGlobals_def table_state satRecAt_def
      initialHandover_def emptyFrame_def defaultObserver_def rainAttFor_def Let_def split_def
      snrAtElevation_def linkBudgetSNR_def)

text \<open>
  C5, as stated, fails: in one frame of the terminal variant, two satellites whose
  popups show the same link-budget SNR (at 0 and at 1 degree, the elevation being clamped
  to 1 degree in the link budget) get different colours, dark green for "not visible"
  and bright green for "visible", because the observer's minimum elevation of half a
  degree lies between them.
\<close>

theorem marker_color_by_SNR_counterexample:
  "map m_color
     (markers (the (drawFrame_terminal horizonGlobals initialHandover False emptyFrame)))
     = [''#004400'', ''#00ff00'']
   \<and> map m_popupSNR
     (markers (the (drawFrame_terminal horizonGlobals initialHandover False emptyFrame)))
     = [Fin (SNR (calculateLinkBudget defaultConfig 0 0)),
        Fin (SNR (calculateLinkBudget defaultConfig 1 0))]
   \<and> SNR (calculateLinkBudget defaultConfig 0 0) = SNR (calculateLinkBudget defaultConfig 1 0)"
proof -
  have both: "map (\<lambda>m. (m_color m, m_popupSNR m))
       (markers (the (drawFrame_terminal horizonGlobals initialHandover False emptyFrame)))
     = [(''#004400'', Fin (SNR (calculateLinkBudget defaultConfig 0 0))),
        (''#00ff00'', Fin (SNR (calculateLinkBudget defaultConfig 1 0)))]"
    by (simp only: horizon_frame option.sel horizon_markers)
  have "map m_color
      (markers (the (drawFrame_terminal horizonGlobals initialHandover False emptyFrame)))
      = map fst (map (\<lambda>m. (m_color m, m_popupSNR m))
      (markers (the (drawFrame_terminal horizonGlobals initialHandover False emptyFrame))))"
    by (simp add: comp_def)
  then have colors: "map m_color
      (markers (the (drawFrame_terminal horizonGlobals initialHandover False emptyFrame)))
      = [''#004400'', ''#00ff00'']"
    by (simp only: both) simp
  have "map m_popupSNR
      (markers (the (drawFrame_terminal horizonGlobals initialHandover False emptyFrame)))
      = map snd (map (\<lambda>m. (m_color m, m_popupSNR m))
      (markers (the (drawFrame_terminal horizonGlobals initialHandover False emptyFrame))))"
    by (simp add: comp_def)
  then have snrs: "map m_popupSNR
      (markers (the (drawFrame_terminal horizonGlobals initialHandover False emptyFrame)))
      = [Fin (SNR (calculateLinkBudget defaultConfig 0 0)),
        Fin (SNR (calculateLinkBudget defaultConfig 1 0))]"
    by (simp only: both) simp
  have same: "SNR (calculateLinkBudget defaultConfig 0 0)
                = SNR (calculateLinkBudget defaultConfig 1 0)"
    by (simp add: SNR_terminal_closed snr_closed_form_def)
  from colors snrs same show ?thesis
    by blast
qed

text \<open>
  C5 (amended): for every satellite drawn in a frame, the colour of its marker is decided
  by its handover role and its elevation, not by the link budget: in the terminal
  variant white for the serving satellite, yellow for a handover candidate, otherwise
  bright green when the elevation is at least \<open>obs.elevMin\<close> and dark green when it is
  not; in the basic variant \<open>#00ff44\<close> when the elevation is at least \<open>obs.elevMin\<close> and
  \<open>#4488ff\<close> when it is not. The colours of a frame are those of the sampled indices in
  order, and they do not change with the weather or the configuration, from which the
  SNR of the popup is computed.
\<close>

theorem marker_color_by_elevation:
  "map m_color (markers (drawSatellite_terminal gt h i frt))
     = map m_color (markers frt) @ markerColor_terminal gt h i
   \<and> (\<exists>fr. drawFrame_terminal gt h False shownt = Some fr
          \<and> map m_color (markers fr)
              = concat (map (markerColor_terminal gt h) (sampledIndices (length (tleList gt)))))
   \<and> markerColor_terminal (gt\<lparr>weatherData := wd, config := cfg\<rparr>) h i
       = markerColor_terminal gt h i
   \<and> map m_color (markers (drawSatellite g j fr))
       = map m_color (markers fr) @ markerColor_basic g j
   \<and> (\<exists>fr. drawFrame g False shown = Some fr
          \<and> map m_color (markers fr)
              = concat (map (markerColor_basic g) (sampledIndices (length (tleList g)))))"
proof -
  have terminal: "map m_color (markers (fold (drawSatellite_terminal gt h)
                     (sampledIndices (length (tleList gt))) (emptyFrame :: (markerT, jsnum) frame)))
      = map m_color (markers (emptyFrame :: (markerT, jsnum) frame))
        @ concat (map (markerColor_terminal gt h) (sampledIndices (length (tleList gt))))"
    by (rule fold_colors) (rule drawSatellite_terminal_color)
  have basic: "map m_color (markers (fold (drawSatellite g)
                     (sampledIndices (length (tleList g))) (emptyFrame :: (real marker, real) frame)))
      = map m_color (markers (emptyFrame :: (real marker, real) frame))
        @ concat (map (markerColor_basic g) (sampledIndices (length (tleList g))))"
    by (rule fold_colors) (rule drawSatellite_color)
  have "satRecs (gt\<lparr>weatherData := wd, config := cfg\<rparr>) = satRecs gt"
    and "satlibrary (gt\<lparr>weatherData := wd, config := cfg\<rparr>) = satlibrary gt"
    and "obs (gt\<lparr>weatherData := wd, config := cfg\<rparr>) = obs gt"
    and "now (gt\<lparr>weatherData := wd, config := cfg\<rparr>) = now gt"
    by simp_all
  then have same: "markerColor_terminal (gt\<lparr>weatherData := wd, config := cfg\<rparr>) h i
                = markerColor_terminal gt h i"
    by (simp only: markerColor_terminal_def)
  show ?thesis
    using terminal basic same drawSatellite_terminal_color [of gt h i frt]
      drawSatellite_color [of g j fr]
    by (simp add: drawFrame_fold drawFrame_terminal_fold emptyFrame_def)
qed

subsection \<open>Handover simulation\<close>

lemma js_ge_not_lt: "js_ge a b \<Longrightarrow> \<not> js_lt a b"
  by (cases a; cases b) simp_all

lemma js_lt_finite: "isFinite a \<Longrightarrow> js_lt a (Fin b) = (\<not> js_ge a (Fin b))"
  by (cases a) auto

lemma getSatState_terminal_no_record: "getSatState_terminal sl ob None t = None"
  by (simp add: getSatState_terminal_def getSatState_terminal_try_def)

lemma trackVisible_with: "trackVisible g i vis = vis @ trackWith (linkBudgetSNR g) g i"
  by (simp add: trackVisible_def trackWith_def stateNow_def getSatState_terminal_no_record
      split: option.splits)

lemma trackVisible_pro_with:
  "trackVisible_pro g i vis = vis @ trackWith (linkBudgetSNR_pro g) g i"
  by (simp add: trackVisible_pro_def trackWith_def stateNow_def getSatState_terminal_no_record
      split: option.splits)

lemma fold_appending: "fold (\<lambda>i vis. vis @ f i) xs acc = acc @ concat (map f xs)"
  by (induction xs arbitrary: acc) simp_all

lemma visibleSatellites_with:
  "visibleSatellites g = concat (map (trackWith (linkBudgetSNR g) g) [0..<length (tleList g)])"
proof -
  have "trackVisible g = (\<lambda>i vis. vis @ trackWith (linkBudgetSNR g) g i)"
    by (intro ext) (rule trackVisible_with)
  then show ?thesis
    by (simp only: visibleSatellites_def fold_appending append_Nil)
qed

lemma visibleSatellites_pro_with:
  "visibleSatellites_pro g
     = concat (map (trackWith (linkBudgetSNR_pro g) g) [0..<length (tleList g)])"
proof -
  have "trackVisible_pro g = (\<lambda>i vis. vis @ trackWith (linkBudgetSNR_pro g) g i)"
    by (intro ext) (rule trackVisible_pro_with)
  then show ?thesis
    by (simp only: visibleSatellites_pro_def fold_appending append_Nil)
qed

lemma simulateHandover_with:
  "simulateHandover g h = handoverWith (visibleSatellites g) g h"
  by (simp add: simulateHandover_def handoverWith_def servingLost_def Let_def
      split: option.splits list.splits)

lemma simulateHandover_pro_with:
  "simulateHandover_pro g h = handoverWith (visibleSatellites_pro g) g h"
  by (simp add: simulateHandover_pro_def handoverWith_def servingLost_def Let_def
      split: option.splits list.splits)

lemma servingStillUsable_not_lost: "servingStillUsable g cur \<Longrightarrow> \<not> servingLost g cur"
  by (simp add: servingStillUsable_def servingLost_def js_ge_not_lt split: option.splits)

lemma handoverWith_kept:
  "currentServingSat h = Some cur \<Longrightarrow> servingStillUsable g cur \<Longrightarrow> handoverWith vis g h = h"
  by (simp add: handoverWith_def servingStillUsable_not_lost)



lemma handoverWith_changed:
  assumes "currentServingSat h = Some cur"
    and "currentServingSat (handoverWith vis g h) \<noteq> Some cur"
  shows "servingLost g cur"
  using assms by (auto simp: handoverWith_def split: if_splits)

text \<open>The sort rearranges the list.\<close>

lemma set_insertBySNR: "set (insertBySNR x ys) = insert x (set ys)"
  by (induction ys) auto

lemma length_insertBySNR: "length (insertBySNR x ys) = Suc (length ys)"
  by (induction ys) simp_all

lemma set_sortBySNR: "set (sortBySNR xs) = set xs"
  unfolding sortBySNR_def by (induction xs) (simp_all add: set_insertBySNR)

lemma length_sortBySNR: "length (sortBySNR xs) = length xs"
  unfolding sortBySNR_def by (induction xs) (simp_all add: length_insertBySNR)

lemma distinct_index_insertBySNR:
  "distinct (map index (insertBySNR x ys)) = distinct (map index (x # ys))"
  by (induction ys) (auto simp: set_insertBySNR)

lemma distinct_index_sort: "distinct (map index (sortBySNR xs)) = distinct (map index xs)"
  unfolding sortBySNR_def
  by (induction xs) (simp_all add: distinct_index_insertBySNR set_sortBySNR [unfolded sortBySNR_def])





lemma handoverWith_invariant:
  assumes "handoverInvariant h" and "distinct (map index vis)"
  shows "handoverInvariant (handoverWith vis g h)"
proof (cases "currentServingSat h")
  case None
  show ?thesis
  proof (cases "vis = []")
    case True
    then show ?thesis
      using assms None by (simp add: handoverWith_def)
  next
    case False
    let ?r = "sortBySNR vis"
    have "?r \<noteq> []"
      using False by (metis length_sortBySNR length_0_conv)
    then obtain a rest where r: "?r = a # rest"
      by (cases ?r) auto
    have "distinct (map index ?r)"
      using assms(2) by (simp only: distinct_index_sort)
    then have d: "index a \<notin> index ` set rest" "distinct (map index rest)"
      using r by simp_all
    have "index a \<notin> index ` set (take 3 rest)"
      using d(1) by (meson image_mono set_take_subset subsetD)
    moreover have "distinct (map index (take 3 rest))"
      using d(2) by (simp add: take_map [symmetric] distinct_take del: take_map)
    ultimately show ?thesis
      using None False r by (simp add: handoverWith_def handoverInvariant_def Let_def)
  qed
next
  case (Some cur)
  then show ?thesis
    using assms(1) by (auto simp: handoverWith_def handoverInvariant_def split: list.splits)
qed

lemma trackWith_index:
  "map index (trackWith snrOf g i) = [] \<or> map index (trackWith snrOf g i) = [i]"
  by (simp add: trackWith_def split: option.splits)

lemma concat_track_index:
  "map index (concat (map (trackWith snrOf g) xs))
     = filter (\<lambda>i. trackWith snrOf g i \<noteq> []) xs"
proof (induction xs)
  case Nil
  then show ?case
    by simp
next
  case (Cons x xs)
  then show ?case
    using trackWith_index [of snrOf g x] by auto
qed

lemma visibleSatellites_distinct: "distinct (map index (visibleSatellites g))"
  by (simp only: visibleSatellites_with concat_track_index) simp

lemma visibleSatellites_pro_distinct: "distinct (map index (visibleSatellites_pro g))"
  by (simp only: visibleSatellites_pro_with concat_track_index) simp

lemma simulateHandover_invariant:
  "handoverInvariant h \<Longrightarrow> handoverInvariant (simulateHandover g h)"
  by (simp add: simulateHandover_with handoverWith_invariant visibleSatellites_distinct)

lemma simulateHandover_pro_invariant:
  "handoverInvariant h \<Longrightarrow> handoverInvariant (simulateHandover_pro g h)"
  by (simp add: simulateHandover_pro_with handoverWith_invariant visibleSatellites_pro_distinct)

lemma initialHandover_invariant: "handoverInvariant initialHandover"
  by (simp add: handoverInvariant_def initialHandover_def)

lemma runHandover_invariant:
  "handoverInvariant h \<Longrightarrow> handoverInvariant (runHandover ticks h)"
  unfolding runHandover_def
  by (induction ticks arbitrary: h) (simp_all add: simulateHandover_invariant)

lemma runHandover_pro_invariant:
  "handoverInvariant h \<Longrightarrow> handoverInvariant (runHandover_pro ticks h)"
  unfolding runHandover_pro_def
  by (induction ticks arbitrary: h) (simp_all add: simulateHandover_pro_invariant)

lemma handoverInvariant_facts:
  assumes "handoverInvariant h"
  shows "candidatesBounded h \<and> servingNotCandidate h"
proof (cases "currentServingSat h")
  case None
  then show ?thesis
    using assms
    by (simp add: handoverInvariant_def candidatesBounded_def servingNotCandidate_def)
next
  case (Some s)
  then have "length (handoverCandidates h) \<le> 3"
      and "index s \<notin> index ` set (handoverCandidates h)"
    using assms by (simp_all add: handoverInvariant_def)
  then have "length (handoverCandidates h) \<le> 3"
      and "\<forall>c\<in>set (handoverCandidates h). index c \<noteq> index s"
    by (simp, metis image_eqI)
  then show ?thesis
    using Some by (simp add: candidatesBounded_def servingNotCandidate_def list_all_iff)
qed



text \<open>The pass of the example data, evaluated.\<close>

lemma upt_0_3: "[0..<3] = [0, 1, 2]"
  by (simp add: upt_rec)

lemma pass_state:
  "stateNow (passTick t) i =
     (if i < 3 then
        Some \<lparr>lat = Fin 0, lon = Fin 0, alt = Fin 550, az = Fin 0,
              el = Fin (passElevation (real i) (real t)), range_km = Fin 1000, speed = Fin 0\<rparr>
      else None)"
proof -
  have "i < 3 \<Longrightarrow> [Some 0, Some 1, Some (2::nat)] ! i = Some i"
    by (auto simp: less_Suc_eq numeral_3_eq_3)
  then show ?thesis
    by (simp add: stateNow_def passTick_def satRecAt_def table_state
        getSatState_terminal_no_record)
qed


lemma pass_visible_0: "visibleSatellites (passTick 0) = [passEntry 0, passEntry 1]"
  by (simp add: visibleSatellites_def trackVisible_def upt_0_3 rainAttFor_def table_state
      passEntry_def satRecAt_def Let_def passTick_def passElevation_def defaultObserver_def
      snrAtElevation_def linkBudgetSNR_def)


lemma pass_acquire:
  "simulateHandover (passTick 0) initialHandover =
     \<lparr>currentServingSat = Some (passEntry 0), handoverCandidates = [passEntry 1]\<rparr>"
  by (simp add: simulateHandover_def pass_visible_0 initialHandover_def Let_def sortBySNR_def)
     (simp add: passEntry_def)

lemma pass_lost_1: "servingLost (passTick 1) (passEntry 0)"
  using pass_state [of 1 0]
  by (simp add: servingLost_def stateNow_def passEntry_def passElevation_def)
     (simp add: passTick_def defaultObserver_def)

lemma pass_handover:
  "simulateHandover (passTick 1)
     \<lparr>currentServingSat = Some (passEntry 0), handoverCandidates = [passEntry 1]\<rparr> =
     \<lparr>currentServingSat = Some (passEntry 1), handoverCandidates = []\<rparr>"
  using pass_lost_1 by (simp add: simulateHandover_with handoverWith_def)

lemma pass_usable_0: "servingStillUsable (passTick 0) (passEntry 0)"
  using pass_state [of 0 0]
  by (simp add: servingStillUsable_def stateNow_def passEntry_def passElevation_def)
     (simp add: passTick_def defaultObserver_def)





text \<open>
  C2: while there is a serving satellite, a call of \<open>simulateHandover\<close> leaves the whole
  handover state as it is when the serving satellite's state is computable and its
  elevation is at least \<open>obs.elevMin - 5\<close>; the serving satellite changes (handover, or
  loss of connection without candidates) only when its state is unavailable or its
  elevation is below \<open>obs.elevMin - 5\<close>.
\<close>

theorem serving_kept_within_hysteresis:
  assumes "currentServingSat h = Some cur"
  shows "(servingStillUsable g cur \<longrightarrow> simulateHandover g h = h)
       \<and> (currentServingSat (simulateHandover g h) \<noteq> Some cur \<longrightarrow>
            (case getSatState_terminal (satlibrary g) (obs g)
                    (satRecAt (satRecs g) (index cur)) (now g) of
               None \<Rightarrow> True
             | Some st \<Rightarrow> js_lt (el st) (Fin (elevMin (obs g) - 5))))
       \<and> (servingStillUsable gp cur \<longrightarrow> simulateHandover_pro gp h = h)
       \<and> (currentServingSat (simulateHandover_pro gp h) \<noteq> Some cur \<longrightarrow>
            (case getSatState_terminal (satlibrary gp) (obs gp)
                    (satRecAt (satRecs gp) (index cur)) (now gp) of
               None \<Rightarrow> True
             | Some st \<Rightarrow> js_lt (el st) (Fin (elevMin (obs gp) - 5))))"
proof -
  have lost: "servingLost g cur \<Longrightarrow>
      (case getSatState_terminal (satlibrary g) (obs g)
              (satRecAt (satRecs g) (index cur)) (now g) of
         None \<Rightarrow> True
       | Some st \<Rightarrow> js_lt (el st) (Fin (elevMin (obs g) - 5)))"
    by (simp add: servingLost_def)
  have lost_pro: "servingLost gp cur \<Longrightarrow>
      (case getSatState_terminal (satlibrary gp) (obs gp)
              (satRecAt (satRecs gp) (index cur)) (now gp) of
         None \<Rightarrow> True
       | Some st \<Rightarrow> js_lt (el st) (Fin (elevMin (obs gp) - 5)))"
    by (simp add: servingLost_def)
  show ?thesis
    using handoverWith_kept [OF assms, of g "visibleSatellites g"]
      handoverWith_kept [OF assms, of gp "visibleSatellites_pro gp"]
      lost handoverWith_changed [OF assms, of "visibleSatellites g" g]
      lost_pro handoverWith_changed [OF assms, of "visibleSatellites_pro gp" gp]
    by (simp only: simulateHandover_with simulateHandover_pro_with) blast
qed

theorem serving_kept_within_hysteresis_witness:
  "currentServingSat
     \<lparr>currentServingSat = Some (passEntry 0), handoverCandidates = [passEntry 1]\<rparr>
     = Some (passEntry 0)
   \<and> servingStillUsable (passTick 0) (passEntry 0)
   \<and> simulateHandover (passTick 0)
       \<lparr>currentServingSat = Some (passEntry 0), handoverCandidates = [passEntry 1]\<rparr>
     = \<lparr>currentServingSat = Some (passEntry 0), handoverCandidates = [passEntry 1]\<rparr>
   \<and> simulateHandover_pro (passTick 0)
       \<lparr>currentServingSat = Some (passEntry 0), handoverCandidates = [passEntry 1]\<rparr>
     = \<lparr>currentServingSat = Some (passEntry 0), handoverCandidates = [passEntry 1]\<rparr>
   \<and> currentServingSat (simulateHandover (passTick 1)
       \<lparr>currentServingSat = Some (passEntry 0), handoverCandidates = [passEntry 1]\<rparr>)
     \<noteq> Some (passEntry 0)
   \<and> (case getSatState_terminal (satlibrary (passTick 1)) (obs (passTick 1))
              (satRecAt (satRecs (passTick 1)) (index (passEntry 0))) (now (passTick 1)) of
         None \<Rightarrow> True
       | Some st \<Rightarrow> js_lt (el st) (Fin (elevMin (obs (passTick 1)) - 5)))"
proof -
  have serving: "currentServingSat
      \<lparr>currentServingSat = Some (passEntry 0), handoverCandidates = [passEntry 1]\<rparr>
        = Some (passEntry 0)"
    by simp
  have changed: "currentServingSat (simulateHandover (passTick 1)
       \<lparr>currentServingSat = Some (passEntry 0), handoverCandidates = [passEntry 1]\<rparr>)
     \<noteq> Some (passEntry 0)"
    by (simp only: pass_handover) (simp add: passEntry_def)
  show ?thesis
    using serving_kept_within_hysteresis [OF serving, of "passTick 0" "passTick 0"]
      serving_kept_within_hysteresis [OF serving, of "passTick 1" "passTick 1"]
      serving changed pass_usable_0
    by blast
qed

text \<open>
  C9: after every call of \<open>simulateHandover\<close>, in every run of the timer from the initial
  state, the candidate list has at most 3 entries and the index of the serving
  satellite, when there is one, differs from the index of every candidate. Both follow
  from an invariant (at most 3 candidates, indices of serving satellite and candidates
  pairwise distinct) that the acquisition step and the handover step preserve.
\<close>

theorem handover_candidates_invariant:
  "candidatesBounded (runHandover ticks initialHandover)
   \<and> servingNotCandidate (runHandover ticks initialHandover)
   \<and> candidatesBounded (runHandover_pro ticksp initialHandover)
   \<and> servingNotCandidate (runHandover_pro ticksp initialHandover)
   \<and> (handoverInvariant h \<longrightarrow>
        handoverInvariant (simulateHandover g h) \<and> candidatesBounded (simulateHandover g h)
        \<and> servingNotCandidate (simulateHandover g h))
   \<and> (handoverInvariant h \<longrightarrow>
        handoverInvariant (simulateHandover_pro gp h)
        \<and> candidatesBounded (simulateHandover_pro gp h)
        \<and> servingNotCandidate (simulateHandover_pro gp h))"
  using handoverInvariant_facts [OF runHandover_invariant [OF initialHandover_invariant, of ticks]]
    handoverInvariant_facts
      [OF runHandover_pro_invariant [OF initialHandover_invariant, of ticksp]]
    simulateHandover_invariant [of h g] simulateHandover_pro_invariant [of h gp]
    handoverInvariant_facts [of "simulateHandover g h"]
    handoverInvariant_facts [of "simulateHandover_pro gp h"]
  by blast

theorem handover_candidates_invariant_witness:
  "handoverInvariant
     \<lparr>currentServingSat = Some (passEntry 0), handoverCandidates = [passEntry 1]\<rparr>
   \<and> runHandover [passTick 0, passTick 1] initialHandover
       = \<lparr>currentServingSat = Some (passEntry 1), handoverCandidates = []\<rparr>
   \<and> servingNotCandidate (runHandover [passTick 0, passTick 1] initialHandover)
   \<and> candidatesBounded (runHandover [passTick 0, passTick 1] initialHandover)
   \<and> servingNotCandidate (simulateHandover (passTick 1)
        \<lparr>currentServingSat = Some (passEntry 0), handoverCandidates = [passEntry 1]\<rparr>)
   \<and> servingNotCandidate (simulateHandover_pro (passTick 1)
        \<lparr>currentServingSat = Some (passEntry 0), handoverCandidates = [passEntry 1]\<rparr>)"
proof -
  have inv: "handoverInvariant
      \<lparr>currentServingSat = Some (passEntry 0), handoverCandidates = [passEntry 1]\<rparr>"
    by (simp add: handoverInvariant_def passEntry_def)
  have run: "runHandover [passTick 0, passTick 1] initialHandover
      = \<lparr>currentServingSat = Some (passEntry 1), handoverCandidates = []\<rparr>"
    by (simp only: runHandover_def fold_simps id_apply comp_apply pass_acquire pass_handover)
  show ?thesis
    using handover_candidates_invariant
        [where ticks = "[passTick 0, passTick 1]"
          and h = "\<lparr>currentServingSat = Some (passEntry 0),
                      handoverCandidates = [passEntry 1]\<rparr>"
          and g = "passTick 1" and gp = "passTick 1"]
      inv run
    by blast
qed

end
